theory Spec2Isabelle
  imports Complex_Main
begin

section \<open>Data model\<close>

text \<open>
  A GeoJSON position is read by the behaviours as \<open>[longitude, latitude]\<close>; numbers are
  modelled as reals (rounding error of IEEE doubles is not modelled). A Polygon holds a list
  of rings, the behaviours edit ring 0.
\<close>

type_synonym position = "real \<times> real"

type_synonym feature_id = string

datatype geometry =
    Point position
  | LineString "position list"
  | Polygon "position list list"

text \<open>
  A JavaScript number that a division can produce, and geometries whose coordinate values
  are such numbers. \<open>scale\<close> alone can produce them: when its factor is not a finite number,
  the coordinates it computes and commits need not be finite numbers either.
\<close>

datatype jsnum = Finite real | PosInfinity | NegInfinity | NaN

type_synonym jsposition = "jsnum \<times> jsnum"

datatype jsgeometry =
    JSPoint jsposition
  | JSLineString "jsposition list"
  | JSPolygon "jsposition list list"

text \<open>\<open>TerraDrawMouseEvent\<close>: \<open>hasSetDraggability\<close> says whether the optional callback is there.\<close>

record event =
  lng :: real
  lat :: real
  containerX :: real
  containerY :: real
  hasSetDraggability :: bool

text \<open>\<open>BehaviorConfig\<close>, as far as the behaviours read it.\<close>

record config =
  pointerDistance :: real
  coordinatePrecision :: nat

datatype error = NotFoundError | TypeError

section \<open>Geometry store\<close>

text \<open>
  Modelled from the spec: the store (\<open>store/store\<close>) is not among the source files. The spec
  gives \<open>getGeometryCopy(id)\<close>, which fails with NotFound on an absent id, and
  \<open>updateGeometry(list)\<close>, which replaces the geometry of every listed record, rejects the
  whole call when an id is not present, and emits one Change Record marking the updated ids.
\<close>

record store =
  features :: "feature_id \<Rightarrow> geometry option"
  emitted :: "feature_id list list"

definition getGeometryCopy :: "store \<Rightarrow> feature_id \<Rightarrow> error + geometry" where
  "getGeometryCopy st i = (case features st i of None \<Rightarrow> Inl NotFoundError | Some g \<Rightarrow> Inr g)"

fun known :: "store \<Rightarrow> feature_id \<times> geometry \<Rightarrow> bool" where
  "known st (i, g) = (case features st i of None \<Rightarrow> False | Some old \<Rightarrow> True)"

fun put :: "(feature_id \<Rightarrow> geometry option) \<Rightarrow> (feature_id \<times> geometry) list \<Rightarrow> feature_id \<Rightarrow> geometry option" where
  "put m [] = m"
| "put m ((i, g) # us) = put (m(i := Some g)) us"

definition updateGeometry :: "store \<Rightarrow> (feature_id \<times> geometry) list \<Rightarrow> error + store" where
  "updateGeometry st us =
     (if list_all (known st) us
      then Inr (st\<lparr>features := put (features st) us, emitted := emitted st @ [map fst us]\<rparr>)
      else Inl NotFoundError)"

text \<open>
  Modelled from the spec: the same \<open>updateGeometry\<close> for updates whose coordinates need
  not be finite numbers. The call is rejected when an id is not present and a Change Record
  marks the updated ids, as above; the updated ids leave \<open>features\<close>, which holds real
  coordinates only, and their new geometries are kept by the outcome of the call.
\<close>

fun known_nonfinite :: "store \<Rightarrow> feature_id \<times> jsgeometry \<Rightarrow> bool" where
  "known_nonfinite st (i, g) = (case features st i of None \<Rightarrow> False | Some old \<Rightarrow> True)"

fun forget :: "(feature_id \<Rightarrow> geometry option) \<Rightarrow> (feature_id \<times> jsgeometry) list \<Rightarrow> feature_id \<Rightarrow> geometry option" where
  "forget m [] = m"
| "forget m ((i, g) # us) = forget (m(i := None)) us"

definition updateGeometryNonFinite :: "store \<Rightarrow> (feature_id \<times> jsgeometry) list \<Rightarrow> error + store" where
  "updateGeometryNonFinite st us =
     (if list_all (known_nonfinite st) us
      then Inr (st\<lparr>features := forget (features st) us, emitted := emitted st @ [map fst us]\<rparr>)
      else Inl NotFoundError)"

section \<open>State of the behaviours and their collaborators\<close>

text \<open>
  One record holds what a call can change: the store, whether the host map still pans
  (\<open>setDraggability\<close>), the fields \<open>draggedFeatureId\<close> and \<open>dragPosition\<close> of
  \<open>DragFeatureBehavior\<close> and the field \<open>lastDistance\<close> of \<open>ScaleFeatureBehavior\<close>.
\<close>

record world =
  store :: store
  mapDraggable :: bool
  draggedFeatureId :: "feature_id option"
  dragPosition :: "position option"
  lastDistance :: "real option"

text \<open>
  The collaborators whose code is not among the source files are parameters:
  \<open>PixelDistanceBehavior.measure\<close>, the \<open>getUpdated\<close> of the two handle managers (which may
  return \<open>undefined\<close>), \<open>centroid\<close>, \<open>haversineDistanceKilometers\<close>, and the map that
  \<open>transformScale\<close> applies to one coordinate (origin, factor, coordinate). The fields named
  \<open>NonFinite\<close> are the same functions where \<open>scale\<close> calls them with a factor, or with
  coordinates, that are not finite numbers.
\<close>

record collaborators =
  measure :: "event \<Rightarrow> position \<Rightarrow> real"
  selectionPointsGetUpdated :: "position list \<Rightarrow> (feature_id \<times> geometry) list option"
  midPointsGetUpdated :: "position list \<Rightarrow> (feature_id \<times> geometry) list option"
  centroid :: "geometry \<Rightarrow> position"
  haversineDistanceKilometers :: "position \<Rightarrow> position \<Rightarrow> real"
  scaleCoordinate :: "position \<Rightarrow> real \<Rightarrow> position \<Rightarrow> position"
  scaleCoordinateNonFinite :: "position \<Rightarrow> jsnum \<Rightarrow> position \<Rightarrow> jsposition"
  selectionPointsGetUpdatedNonFinite :: "jsposition list \<Rightarrow> (feature_id \<times> jsgeometry) list option"
  midPointsGetUpdatedNonFinite :: "jsposition list \<Rightarrow> (feature_id \<times> jsgeometry) list option"

text \<open>\<open>x || []\<close>\<close>

fun or_empty :: "'a list option \<Rightarrow> 'a list" where
  "or_empty None = []"
| "or_empty (Some xs) = xs"

datatype ret = Undefined | Bool bool

text \<open>
  How a call ends: it throws, or it returns a value; both with the state it leaves.
  Two more endings stand for values the store of this model does not hold. \<open>SparseArray\<close>:
  a write past the end of a coordinate array leaves holes in the geometry that is committed;
  it carries the state before the commit. \<open>CommittedNonFinite\<close>: \<open>scale\<close> has updated the
  store with geometries computed from a factor that is not a finite number, and has
  returned; it carries the state after the call and the updates it handed to
  \<open>updateGeometry\<close>. The store of that state has the new Change Record and no entry in
  \<open>features\<close> for the updated ids: their geometries are the ones of the list.
\<close>

datatype outcome =
    Threw error world
  | Returned ret world
  | SparseArray world
  | CommittedNonFinite world "(feature_id \<times> jsgeometry) list"

fun world_of :: "outcome \<Rightarrow> world" where
  "world_of (Threw err w) = w"
| "world_of (Returned r w) = w"
| "world_of (SparseArray w) = w"
| "world_of (CommittedNonFinite w us) = w"

text \<open>\<open>if (event.setDraggability) event.setDraggability(false)\<close>\<close>

definition disableDraggability :: "event \<Rightarrow> world \<Rightarrow> world" where
  "disableDraggability e w = (if hasSetDraggability e then w\<lparr>mapDraggable := False\<rparr> else w)"

text \<open>\<open>this.store.updateGeometry(updates)\<close> followed by \<open>after\<close> on the state.\<close>

definition commit :: "world \<Rightarrow> (feature_id \<times> geometry) list \<Rightarrow> (world \<Rightarrow> outcome) \<Rightarrow> outcome" where
  "commit w us after =
     (case updateGeometry (store w) us of
        Inl err \<Rightarrow> Threw err w
      | Inr st \<Rightarrow> after (w\<lparr>store := st\<rparr>))"

section \<open>Coordinate-Drag (drag-coordinate.behavior.ts)\<close>

text \<open>
  The accumulator of the scan; \<open>dist = None\<close> is \<open>Infinity\<close>.
\<close>

record closest =
  dist :: "real option"
  index :: int
  isFirstOrLastPolygonCoord :: bool

fun below :: "real \<Rightarrow> real option \<Rightarrow> bool" where
  "below d None = True"
| "below d (Some d') = (d < d')"

text \<open>
  The loop of \<open>isCoordinateNearEvent\<close> from index \<open>i\<close> on; \<open>n\<close> is
  \<open>geomCoordinates.length\<close> and \<open>isPolygon\<close> is \<open>geometry.type === "Polygon"\<close>.
\<close>

fun scan :: "(position \<Rightarrow> real) \<Rightarrow> real \<Rightarrow> bool \<Rightarrow> nat \<Rightarrow> nat \<Rightarrow> position list \<Rightarrow> closest \<Rightarrow> closest" where
  "scan m tol isPolygon n i [] cl = cl"
| "scan m tol isPolygon n i (coord # rest) cl =
     scan m tol isPolygon n (Suc i) rest
       (if m coord < tol \<and> below (m coord) (dist cl)
        then \<lparr>dist = Some (m coord),
              index = (if isPolygon \<and> (int i = int n - 1 \<or> i = 0) then 0 else int i),
              isFirstOrLastPolygonCoord = (isPolygon \<and> (int i = int n - 1 \<or> i = 0))\<rparr>
        else cl)"

definition closestCoordinate0 :: closest where
  "closestCoordinate0 = \<lparr>dist = None, index = - 1, isFirstOrLastPolygonCoord = False\<rparr>"

definition isCoordinateNearEvent ::
  "config \<Rightarrow> collaborators \<Rightarrow> world \<Rightarrow> event \<Rightarrow> feature_id \<Rightarrow> error + int" where
  "isCoordinateNearEvent cfg col w e selectedId =
     (case getGeometryCopy (store w) selectedId of
        Inl err \<Rightarrow> Inl err
      | Inr (Point p) \<Rightarrow> Inr (- 1)
      | Inr (LineString cs) \<Rightarrow>
          Inr (index (scan (measure col e) (pointerDistance cfg) False (length cs) 0 cs closestCoordinate0))
      | Inr (Polygon []) \<Rightarrow> Inl TypeError
      | Inr (Polygon (ring # rings)) \<Rightarrow>
          Inr (index (scan (measure col e) (pointerDistance cfg) True (length ring) 0 ring closestCoordinate0)))"

text \<open>
  \<open>arr[i] = v\<close> on a JavaScript array: an index inside the array replaces the element, the
  index \<open>arr.length\<close> appends, a larger one leaves holes (\<open>None\<close> here), and a negative one
  sets a property that is no element, so the coordinates stay as they are.
\<close>

definition assign :: "position list \<Rightarrow> int \<Rightarrow> position \<Rightarrow> position list option" where
  "assign arr i v =
     (if i < 0 then Some arr
      else if i < int (length arr) then Some (arr[nat i := v])
      else if i = int (length arr) then Some (arr @ [v])
      else None)"

text \<open>
  The two branches that write the coordinate array in \<open>drag\<close>; \<open>lastCoordIndex\<close> is
  taken from the array before the first write.
\<close>

definition relocate :: "bool \<Rightarrow> position list \<Rightarrow> int \<Rightarrow> position \<Rightarrow> position list option" where
  "relocate isPolygon arr i v =
     (if isPolygon \<and> (i = int (length arr) - 1 \<or> i = 0)
      then (case assign arr 0 v of
              None \<Rightarrow> None
            | Some arr' \<Rightarrow> assign arr' (int (length arr) - 1) v)
      else assign arr i v)"

definition drag_coordinate :: "world \<Rightarrow> event \<Rightarrow> feature_id \<Rightarrow> int \<Rightarrow> outcome" where
  "drag_coordinate w e selectedId i =
     (case getGeometryCopy (store w) selectedId of
        Inl err \<Rightarrow> Threw err w
      | Inr (Point p) \<Rightarrow> Returned (Bool False) w
      | Inr (LineString cs) \<Rightarrow>
          (case relocate False cs i (lng e, lat e) of
             None \<Rightarrow> SparseArray (disableDraggability e w)
           | Some cs' \<Rightarrow>
               commit (disableDraggability e w) [(selectedId, LineString cs')] (Returned (Bool True)))
      | Inr (Polygon []) \<Rightarrow> Threw TypeError (disableDraggability e w)
      | Inr (Polygon (ring # rings)) \<Rightarrow>
          (case relocate True ring i (lng e, lat e) of
             None \<Rightarrow> SparseArray (disableDraggability e w)
           | Some ring' \<Rightarrow>
               commit (disableDraggability e w) [(selectedId, Polygon (ring' # rings))] (Returned (Bool True))))"

section \<open>Feature-Drag\<close>

text \<open>
  Modelled from the spec: \<open>limitPrecision\<close> (\<open>geometry/limit-decimal-precision\<close>) is not among
  the source files. The spec says a coordinate value is rounded to the configured number of
  decimal places, \<open>12.1234567\<close> at precision 6 becoming \<open>12.123457\<close>.
\<close>

definition limitPrecision :: "real \<Rightarrow> nat \<Rightarrow> real" where
  "limitPrecision num decimalLimit = real_of_int (round (num * 10 ^ decimalLimit)) / 10 ^ decimalLimit"

text \<open>
  \<open>updatedCoords[updatedCoords.length - 1] = [updatedCoords[0][0], updatedCoords[0][1]]\<close>;
  \<open>None\<close> is the TypeError of reading \<open>updatedCoords[0][0]\<close> in an empty ring.
\<close>

definition closeRing :: "position list \<Rightarrow> position list option" where
  "closeRing cs = (case cs of [] \<Rightarrow> None | c0 # rest \<Rightarrow> Some (cs[length cs - 1 := (fst c0, snd c0)]))"

definition closeIfPolygon :: "bool \<Rightarrow> position list \<Rightarrow> position list option" where
  "closeIfPolygon isPolygon cs = (if isPolygon then closeRing cs else Some cs)"

text \<open>The updates handed to \<open>updateGeometry\<close>: the feature, then both sets of handles.\<close>

definition updates :: "collaborators \<Rightarrow> feature_id \<Rightarrow> geometry \<Rightarrow> position list \<Rightarrow> (feature_id \<times> geometry) list" where
  "updates col fid g cs =
     (fid, g) # or_empty (selectionPointsGetUpdated col cs) @ or_empty (midPointsGetUpdated col cs)"

subsection \<open>The variant of part\_001: the delta is clamped\<close>

definition component :: "position \<Rightarrow> nat \<Rightarrow> real" where
  "component p k = (if k = 0 then fst p else snd p)"

definition with_component :: "position \<Rightarrow> nat \<Rightarrow> real \<Rightarrow> position" where
  "with_component p k v = (if k = 0 then (v, snd p) else (fst p, v))"

text \<open>\<open>validateDeltaRange\<close> writes the shared \<open>delta\<close>; here it returns the new value.\<close>

definition validateDeltaRange :: "nat \<Rightarrow> position \<Rightarrow> real \<Rightarrow> real \<Rightarrow> position \<Rightarrow> position" where
  "validateDeltaRange deltaIdx pos mn mx delta =
     (let updatedCoordinate = component pos deltaIdx - component delta deltaIdx;
          delta1 = (if updatedCoordinate < mn
                    then with_component delta deltaIdx (mn - component pos deltaIdx) else delta)
      in if updatedCoordinate > mx
         then with_component delta1 deltaIdx (mx - component pos deltaIdx) else delta1)"

text \<open>The first loop over \<open>i < upToCoord\<close>.\<close>

definition clampDelta :: "position list \<Rightarrow> position \<Rightarrow> position" where
  "clampDelta cs delta = fold (\<lambda>coordinate. validateDeltaRange 1 coordinate (- 85) 85) cs delta"

text \<open>The second loop of part\_001: every coordinate below \<open>upToCoord\<close> moves by the delta.\<close>

definition shiftBy :: "position \<Rightarrow> position list \<Rightarrow> position list" where
  "shiftBy delta cs = map (\<lambda>coordinate. (fst coordinate - fst delta, snd coordinate - snd delta)) cs"

definition translate_part_001 ::
  "collaborators \<Rightarrow> world \<Rightarrow> event \<Rightarrow> feature_id \<Rightarrow> bool \<Rightarrow> position list \<Rightarrow> int \<Rightarrow> (position list \<Rightarrow> geometry) \<Rightarrow> outcome" where
  "translate_part_001 col w e selectedId isPolygon updatedCoords upToCoord rebuild =
     (case dragPosition w of
        None \<Rightarrow> Returned (Bool False) w
      | Some anchor \<Rightarrow>
          (let delta = clampDelta (take (nat upToCoord) updatedCoords)
                         (fst anchor - lng e, snd anchor - lat e)
           in case closeIfPolygon isPolygon
                     (shiftBy delta (take (nat upToCoord) updatedCoords) @ drop (nat upToCoord) updatedCoords) of
                None \<Rightarrow> Threw TypeError w
              | Some cs \<Rightarrow> commit w (updates col selectedId (rebuild cs) cs) (Returned Undefined)))"

definition drag_part_001 :: "collaborators \<Rightarrow> world \<Rightarrow> event \<Rightarrow> feature_id \<Rightarrow> outcome" where
  "drag_part_001 col w e selectedId =
     (case getGeometryCopy (store (disableDraggability e w)) selectedId of
        Inl err \<Rightarrow> Threw err (disableDraggability e w)
      | Inr (Point p) \<Rightarrow>
          commit (disableDraggability e w) [(selectedId, Point (lng e, lat e))] (Returned Undefined)
      | Inr (LineString cs) \<Rightarrow>
          translate_part_001 col (disableDraggability e w) e selectedId False cs (int (length cs)) LineString
      | Inr (Polygon []) \<Rightarrow> Threw TypeError (disableDraggability e w)
      | Inr (Polygon (ring # rings)) \<Rightarrow>
          translate_part_001 col (disableDraggability e w) e selectedId True ring (int (length ring) - 1)
            (\<lambda>cs. Polygon (cs # rings)))"

subsection \<open>The variants of part\_002: a coordinate out of range rejects the tick\<close>

text \<open>
  Inside the loop of both variants the delta is computed again from \<open>dragPosition\<close> and
  the pointer in every pass: \<open>delta = [dragPosition[0] - mouseCoord[0], dragPosition[1] -
  mouseCoord[1]]\<close>, \<open>updatedLng = coordinate[0] - delta[0]\<close>, \<open>updatedLat = coordinate[1] -
  delta[1]\<close>.
\<close>

definition updatedLng :: "position \<Rightarrow> position \<Rightarrow> position \<Rightarrow> real" where
  "updatedLng anchor mouseCoord coordinate = fst coordinate - (fst anchor - fst mouseCoord)"

definition updatedLat :: "position \<Rightarrow> position \<Rightarrow> position \<Rightarrow> real" where
  "updatedLat anchor mouseCoord coordinate = snd coordinate - (snd anchor - snd mouseCoord)"

text \<open>\<open>updatedLng > 180 || updatedLng < -180 || updatedLat > 90 || updatedLat < -90\<close>\<close>

definition invalid :: "real \<Rightarrow> real \<Rightarrow> bool" where
  "invalid lng' lat' = (lng' > 180 \<or> lng' < - 180 \<or> lat' > 90 \<or> lat' < - 90)"

text \<open>
  The loop that moves and checks, as the first variant of part\_002 has it; \<open>None\<close> is
  \<open>return false\<close>.
\<close>

fun shiftChecked :: "position \<Rightarrow> position \<Rightarrow> position list \<Rightarrow> position list option" where
  "shiftChecked anchor mouseCoord [] = Some []"
| "shiftChecked anchor mouseCoord (coordinate # rest) =
     (if invalid (updatedLng anchor mouseCoord coordinate) (updatedLat anchor mouseCoord coordinate)
      then None
      else (case shiftChecked anchor mouseCoord rest of
              None \<Rightarrow> None
            | Some rest' \<Rightarrow>
                Some ((updatedLng anchor mouseCoord coordinate, updatedLat anchor mouseCoord coordinate) # rest')))"

text \<open>The same loop in the second variant, which also limits the precision.\<close>

fun shiftCheckedLimited :: "nat \<Rightarrow> position \<Rightarrow> position \<Rightarrow> position list \<Rightarrow> position list option" where
  "shiftCheckedLimited p anchor mouseCoord [] = Some []"
| "shiftCheckedLimited p anchor mouseCoord (coordinate # rest) =
     (if invalid (updatedLng anchor mouseCoord coordinate) (updatedLat anchor mouseCoord coordinate)
      then None
      else (case shiftCheckedLimited p anchor mouseCoord rest of
              None \<Rightarrow> None
            | Some rest' \<Rightarrow>
                Some ((limitPrecision (updatedLng anchor mouseCoord coordinate) p,
                       limitPrecision (updatedLat anchor mouseCoord coordinate) p) # rest')))"

text \<open>What follows the loop in both variants: close the ring, update, move the anchor.\<close>

definition finish_part_002 ::
  "collaborators \<Rightarrow> world \<Rightarrow> event \<Rightarrow> feature_id \<Rightarrow> bool \<Rightarrow> position list \<Rightarrow> (position list \<Rightarrow> geometry) \<Rightarrow> outcome" where
  "finish_part_002 col w e fid isPolygon updatedCoords rebuild =
     (case closeIfPolygon isPolygon updatedCoords of
        None \<Rightarrow> Threw TypeError w
      | Some cs \<Rightarrow>
          commit w (updates col fid (rebuild cs) cs)
            (\<lambda>w'. Returned Undefined (w'\<lparr>dragPosition := Some (lng e, lat e)\<rparr>)))"

definition translate_part_002_first ::
  "collaborators \<Rightarrow> world \<Rightarrow> event \<Rightarrow> feature_id \<Rightarrow> bool \<Rightarrow> position list \<Rightarrow> int \<Rightarrow> (position list \<Rightarrow> geometry) \<Rightarrow> outcome" where
  "translate_part_002_first col w e fid isPolygon updatedCoords upToCoord rebuild =
     (case dragPosition w of
        None \<Rightarrow> Returned (Bool False) w
      | Some anchor \<Rightarrow>
          (let delta = clampDelta (take (nat upToCoord) updatedCoords)
                         (fst anchor - lng e, snd anchor - lat e)
           in case shiftChecked anchor (lng e, lat e) (take (nat upToCoord) updatedCoords) of
                None \<Rightarrow> Returned (Bool False) w
              | Some moved \<Rightarrow>
                  finish_part_002 col w e fid isPolygon (moved @ drop (nat upToCoord) updatedCoords) rebuild))"

definition translate_part_002_second ::
  "config \<Rightarrow> collaborators \<Rightarrow> world \<Rightarrow> event \<Rightarrow> feature_id \<Rightarrow> bool \<Rightarrow> position list \<Rightarrow> int \<Rightarrow> (position list \<Rightarrow> geometry) \<Rightarrow> outcome" where
  "translate_part_002_second cfg col w e fid isPolygon updatedCoords upToCoord rebuild =
     (case dragPosition w of
        None \<Rightarrow> Returned (Bool False) w
      | Some anchor \<Rightarrow>
          (case shiftCheckedLimited (coordinatePrecision cfg) anchor (lng e, lat e)
                  (take (nat upToCoord) updatedCoords) of
             None \<Rightarrow> Returned (Bool False) w
           | Some moved \<Rightarrow>
               finish_part_002 col w e fid isPolygon (moved @ drop (nat upToCoord) updatedCoords) rebuild))"

text \<open>
  The frame both variants share: \<open>translate\<close> is the branch for a LineString or a Polygon.
  \<open>!this.draggedFeatureId\<close> holds for \<open>null\<close> and for the empty string.
\<close>

definition drag_part_002 ::
  "(world \<Rightarrow> event \<Rightarrow> feature_id \<Rightarrow> bool \<Rightarrow> position list \<Rightarrow> int \<Rightarrow> (position list \<Rightarrow> geometry) \<Rightarrow> outcome)
   \<Rightarrow> world \<Rightarrow> event \<Rightarrow> outcome" where
  "drag_part_002 translate w e =
     (case draggedFeatureId w of
        None \<Rightarrow> Returned Undefined w
      | Some fid \<Rightarrow>
          if fid = [] then Returned Undefined w
          else (case getGeometryCopy (store w) fid of
                  Inl err \<Rightarrow> Threw err w
                | Inr (Point p) \<Rightarrow>
                    commit w [(fid, Point (lng e, lat e))]
                      (\<lambda>w'. Returned Undefined (w'\<lparr>dragPosition := Some (lng e, lat e)\<rparr>))
                | Inr (LineString cs) \<Rightarrow> translate w e fid False cs (int (length cs)) LineString
                | Inr (Polygon []) \<Rightarrow> Threw TypeError w
                | Inr (Polygon (ring # rings)) \<Rightarrow>
                    translate w e fid True ring (int (length ring) - 1) (\<lambda>cs. Polygon (cs # rings))))"

definition drag_part_002_first :: "collaborators \<Rightarrow> world \<Rightarrow> event \<Rightarrow> outcome" where
  "drag_part_002_first col w e = drag_part_002 (translate_part_002_first col) w e"

definition drag_part_002_second :: "config \<Rightarrow> collaborators \<Rightarrow> world \<Rightarrow> event \<Rightarrow> outcome" where
  "drag_part_002_second cfg col w e = drag_part_002 (translate_part_002_second cfg col) w e"

definition startDragging :: "world \<Rightarrow> event \<Rightarrow> feature_id \<Rightarrow> world" where
  "startDragging w e fid = w\<lparr>draggedFeatureId := Some fid, dragPosition := Some (lng e, lat e)\<rparr>"

definition stopDragging :: "world \<Rightarrow> world" where
  "stopDragging w = w\<lparr>draggedFeatureId := None, dragPosition := None\<rparr>"

section \<open>Feature-Scale (scale-feature.behavior.ts)\<close>

text \<open>
  Division and \<open>1 - x\<close> of JavaScript numbers, on finite operands for the division. A zero
  divisor gives an infinity with the sign of the dividend, or \<open>NaN\<close> for \<open>0 / 0\<close> (the
  divisor is a distance, so it is not the negative zero).
\<close>

definition js_divide :: "real \<Rightarrow> real \<Rightarrow> jsnum" where
  "js_divide a b =
     (if b = 0 then (if a = 0 then NaN else if a > 0 then PosInfinity else NegInfinity)
      else Finite (a / b))"

fun one_minus :: "jsnum \<Rightarrow> jsnum" where
  "one_minus (Finite r) = Finite (1 - r)"
| "one_minus PosInfinity = NegInfinity"
| "one_minus NegInfinity = PosInfinity"
| "one_minus NaN = NaN"

text \<open>\<open>const scale = 1 - (this.lastDistance - distance) / distance\<close>\<close>

definition scaleFactor :: "real \<Rightarrow> real \<Rightarrow> jsnum" where
  "scaleFactor previous distance = one_minus (js_divide (previous - distance) distance)"

text \<open>
  Modelled from the spec: \<open>transformScale\<close> (\<open>geometry/transform/scale\<close>) is not among the
  source files. The spec says it applies the scale transform of the factor to every
  coordinate about the centroid; the transform of one coordinate is the parameter
  \<open>scaleCoordinate\<close>.
\<close>

definition transformScale :: "collaborators \<Rightarrow> geometry \<Rightarrow> real \<Rightarrow> geometry" where
  "transformScale col g factor =
     (case g of
        Point p \<Rightarrow> Point p
      | LineString cs \<Rightarrow> LineString (map (scaleCoordinate col (centroid col g) factor) cs)
      | Polygon rings \<Rightarrow> Polygon (map (map (scaleCoordinate col (centroid col g) factor)) rings))"

text \<open>
  Modelled from the spec: with a factor that is not a finite number \<open>transformScale\<close> is
  the same map over the coordinates; what it makes of one coordinate is the parameter
  \<open>scaleCoordinateNonFinite\<close>, whose values need not be finite numbers.
\<close>

definition jsposition_of :: "position \<Rightarrow> jsposition" where
  "jsposition_of p = (Finite (fst p), Finite (snd p))"

definition transformScaleNonFinite :: "collaborators \<Rightarrow> geometry \<Rightarrow> jsnum \<Rightarrow> jsgeometry" where
  "transformScaleNonFinite col g factor =
     (case g of
        Point p \<Rightarrow> JSPoint (jsposition_of p)
      | LineString cs \<Rightarrow> JSLineString (map (scaleCoordinateNonFinite col (centroid col g) factor) cs)
      | Polygon rings \<Rightarrow>
          JSPolygon (map (map (scaleCoordinateNonFinite col (centroid col g) factor)) rings))"

text \<open>The \<open>forEach\<close> that limits the precision of \<open>updatedCoords\<close>.\<close>

definition limitCoords :: "nat \<Rightarrow> position list \<Rightarrow> position list" where
  "limitCoords p cs = map (\<lambda>coordinate. (limitPrecision (fst coordinate) p, limitPrecision (snd coordinate) p)) cs"

text \<open>
  The same \<open>forEach\<close> on coordinates that need not be finite numbers. Modelled from the
  spec: \<open>limitPrecision\<close> rounds a finite number as above; \<open>NaN\<close> and the infinities have
  nothing to round and stay as they are.
\<close>

fun limitPrecisionNonFinite :: "jsnum \<Rightarrow> nat \<Rightarrow> jsnum" where
  "limitPrecisionNonFinite (Finite num) decimalLimit = Finite (limitPrecision num decimalLimit)"
| "limitPrecisionNonFinite PosInfinity decimalLimit = PosInfinity"
| "limitPrecisionNonFinite NegInfinity decimalLimit = NegInfinity"
| "limitPrecisionNonFinite NaN decimalLimit = NaN"

definition limitCoordsNonFinite :: "nat \<Rightarrow> jsposition list \<Rightarrow> jsposition list" where
  "limitCoordsNonFinite p cs =
     map (\<lambda>coordinate. (limitPrecisionNonFinite (fst coordinate) p, limitPrecisionNonFinite (snd coordinate) p)) cs"

text \<open>The updates of \<open>scale\<close>: the feature, the selection points, the mid points.\<close>

definition scaled :: "config \<Rightarrow> collaborators \<Rightarrow> world \<Rightarrow> feature_id \<Rightarrow> real \<Rightarrow> geometry \<Rightarrow> outcome" where
  "scaled cfg col w selectedId distance g =
     (case g of
        Point p \<Rightarrow> Returned Undefined w
      | LineString cs \<Rightarrow>
          commit w
            (updates col selectedId (LineString (limitCoords (coordinatePrecision cfg) cs))
               (limitCoords (coordinatePrecision cfg) cs))
            (\<lambda>w'. Returned Undefined (w'\<lparr>lastDistance := Some distance\<rparr>))
      | Polygon [] \<Rightarrow> Threw TypeError w
      | Polygon (ring # rings) \<Rightarrow>
          commit w
            (updates col selectedId (Polygon (limitCoords (coordinatePrecision cfg) ring # rings))
               (limitCoords (coordinatePrecision cfg) ring))
            (\<lambda>w'. Returned Undefined (w'\<lparr>lastDistance := Some distance\<rparr>)))"

text \<open>
  The same steps when the factor was not a finite number: the precision of
  \<open>updatedCoords\<close> is limited, both handle managers are asked, the store is updated with
  the feature, the selection points and the mid points, and \<open>lastDistance\<close> is set.
\<close>

definition updatesNonFinite ::
  "collaborators \<Rightarrow> feature_id \<Rightarrow> jsgeometry \<Rightarrow> jsposition list \<Rightarrow> (feature_id \<times> jsgeometry) list" where
  "updatesNonFinite col fid g cs =
     (fid, g) # or_empty (selectionPointsGetUpdatedNonFinite col cs)
       @ or_empty (midPointsGetUpdatedNonFinite col cs)"

definition commitNonFinite :: "world \<Rightarrow> (feature_id \<times> jsgeometry) list \<Rightarrow> real \<Rightarrow> outcome" where
  "commitNonFinite w us distance =
     (case updateGeometryNonFinite (store w) us of
        Inl err \<Rightarrow> Threw err w
      | Inr st \<Rightarrow> CommittedNonFinite (w\<lparr>store := st, lastDistance := Some distance\<rparr>) us)"

definition scaledNonFinite ::
  "config \<Rightarrow> collaborators \<Rightarrow> world \<Rightarrow> feature_id \<Rightarrow> real \<Rightarrow> jsgeometry \<Rightarrow> outcome" where
  "scaledNonFinite cfg col w selectedId distance g =
     (case g of
        JSPoint p \<Rightarrow> Returned Undefined w
      | JSLineString cs \<Rightarrow>
          commitNonFinite w
            (updatesNonFinite col selectedId
               (JSLineString (limitCoordsNonFinite (coordinatePrecision cfg) cs))
               (limitCoordsNonFinite (coordinatePrecision cfg) cs))
            distance
      | JSPolygon [] \<Rightarrow> Threw TypeError w
      | JSPolygon (ring # rings) \<Rightarrow>
          commitNonFinite w
            (updatesNonFinite col selectedId
               (JSPolygon (limitCoordsNonFinite (coordinatePrecision cfg) ring # rings))
               (limitCoordsNonFinite (coordinatePrecision cfg) ring))
            distance)"

text \<open>
  From the distance on. \<open>!this.lastDistance\<close> holds for \<open>undefined\<close> and for \<open>0\<close>; both
  store the distance and return. After that the code has no branch on the factor: it
  transforms, limits the precision, asks the handle managers, updates the store and sets
  \<open>lastDistance\<close>. The two branches here differ in the type of the coordinates only.
\<close>

definition rescale :: "config \<Rightarrow> collaborators \<Rightarrow> world \<Rightarrow> event \<Rightarrow> feature_id \<Rightarrow> geometry \<Rightarrow> outcome" where
  "rescale cfg col w e selectedId geometry =
     (let distance = haversineDistanceKilometers col (centroid col geometry) (lng e, lat e)
      in case lastDistance w of
           None \<Rightarrow> Returned Undefined (w\<lparr>lastDistance := Some distance\<rparr>)
         | Some previous \<Rightarrow>
             if previous = 0 then Returned Undefined (w\<lparr>lastDistance := Some distance\<rparr>)
             else (case scaleFactor previous distance of
                     Finite factor \<Rightarrow> scaled cfg col w selectedId distance (transformScale col geometry factor)
                   | PosInfinity \<Rightarrow>
                       scaledNonFinite cfg col w selectedId distance
                         (transformScaleNonFinite col geometry PosInfinity)
                   | NegInfinity \<Rightarrow>
                       scaledNonFinite cfg col w selectedId distance
                         (transformScaleNonFinite col geometry NegInfinity)
                   | NaN \<Rightarrow>
                       scaledNonFinite cfg col w selectedId distance
                         (transformScaleNonFinite col geometry NaN)))"

definition scale :: "config \<Rightarrow> collaborators \<Rightarrow> world \<Rightarrow> event \<Rightarrow> feature_id \<Rightarrow> outcome" where
  "scale cfg col w e selectedId =
     (case getGeometryCopy (store w) selectedId of
        Inl err \<Rightarrow> Threw err w
      | Inr (Point p) \<Rightarrow> Returned Undefined w
      | Inr (LineString cs) \<Rightarrow> rescale cfg col (disableDraggability e w) e selectedId (LineString cs)
      | Inr (Polygon rings) \<Rightarrow> rescale cfg col (disableDraggability e w) e selectedId (Polygon rings))"

definition reset :: "world \<Rightarrow> world" where
  "reset w = w\<lparr>lastDistance := None\<rparr>"

section \<open>The first variant of part\_002 without its clamping loop\<close>

text \<open>
  The branch for a LineString or a Polygon with the loop over \<open>validateDeltaRange\<close> taken
  out, everything else as in \<open>translate_part_002_first\<close>.
\<close>

definition translate_part_002_first_unclamped ::
  "collaborators \<Rightarrow> world \<Rightarrow> event \<Rightarrow> feature_id \<Rightarrow> bool \<Rightarrow> position list \<Rightarrow> int \<Rightarrow> (position list \<Rightarrow> geometry) \<Rightarrow> outcome" where
  "translate_part_002_first_unclamped col w e fid isPolygon updatedCoords upToCoord rebuild =
     (case dragPosition w of
        None \<Rightarrow> Returned (Bool False) w
      | Some anchor \<Rightarrow>
          (case shiftChecked anchor (lng e, lat e) (take (nat upToCoord) updatedCoords) of
             None \<Rightarrow> Returned (Bool False) w
           | Some moved \<Rightarrow>
               finish_part_002 col w e fid isPolygon (moved @ drop (nat upToCoord) updatedCoords) rebuild))"

definition drag_part_002_first_unclamped :: "collaborators \<Rightarrow> world \<Rightarrow> event \<Rightarrow> outcome" where
  "drag_part_002_first_unclamped col w e = drag_part_002 (translate_part_002_first_unclamped col) w e"

section \<open>Reading an outcome, and properties of values\<close>

fun result_of :: "outcome \<Rightarrow> ret option" where
  "result_of (Returned r w) = Some r"
| "result_of (Threw err w) = None"
| "result_of (SparseArray w) = None"
| "result_of (CommittedNonFinite w us) = Some Undefined"

text \<open>The updates that \<open>scale\<close> committed from a factor that is not a finite number.\<close>

fun committedNonFinite :: "outcome \<Rightarrow> (feature_id \<times> jsgeometry) list" where
  "committedNonFinite (CommittedNonFinite w us) = us"
| "committedNonFinite (Threw err w) = []"
| "committedNonFinite (Returned r w) = []"
| "committedNonFinite (SparseArray w) = []"


text \<open>A number with at most \<open>p\<close> decimal places.\<close>

definition decimal :: "nat \<Rightarrow> real \<Rightarrow> bool" where
  "decimal p x = (\<exists>k::int. x = real_of_int k / 10 ^ p)"

definition decimals :: "nat \<Rightarrow> position list \<Rightarrow> bool" where
  "decimals p cs = list_all (\<lambda>c. decimal p (fst c) \<and> decimal p (snd c)) cs"

text \<open>
  The same for a JavaScript number that need not be finite: a finite one has at most \<open>p\<close>
  decimal places; \<open>NaN\<close> and the infinities have no decimal places to count.
\<close>

fun decimalNonFinite :: "nat \<Rightarrow> jsnum \<Rightarrow> bool" where
  "decimalNonFinite p (Finite x) = decimal p x"
| "decimalNonFinite p PosInfinity = True"
| "decimalNonFinite p NegInfinity = True"
| "decimalNonFinite p NaN = True"

definition decimalsNonFinite :: "nat \<Rightarrow> jsposition list \<Rightarrow> bool" where
  "decimalsNonFinite p cs = list_all (\<lambda>c. decimalNonFinite p (fst c) \<and> decimalNonFinite p (snd c)) cs"

text \<open>
  The words of the spec for the hit test: \<open>j\<close> is the index of a closest coordinate strictly
  within the tolerance, and the first such index in coordinate order.
\<close>

definition first_closest :: "(position \<Rightarrow> real) \<Rightarrow> real \<Rightarrow> position list \<Rightarrow> nat \<Rightarrow> bool" where
  "first_closest d tol cs j =
     (j < length cs \<and> d (cs ! j) < tol
      \<and> (\<forall>k < length cs. d (cs ! j) \<le> d (cs ! k))
      \<and> (\<forall>k < j. d (cs ! j) < d (cs ! k)))"

text \<open>No handle that the managers return has the id of the feature itself.\<close>

definition handles_apart :: "collaborators \<Rightarrow> feature_id \<Rightarrow> bool" where
  "handles_apart col fid =
     (\<forall>cs. fid \<notin> fst ` set (or_empty (selectionPointsGetUpdated col cs))
         \<and> fid \<notin> fst ` set (or_empty (midPointsGetUpdated col cs)))"

section \<open>Concrete collaborators and states for the runs below\<close>

text \<open>
  Planar stand-ins for the collaborators: distances are sums of coordinate differences, the
  centroid is the mean of the coordinates (without the closing one of a ring), the scale
  transform is \<open>origin + factor * (coordinate - origin)\<close> for a finite factor and gives
  \<open>NaN\<close> for both values of every coordinate otherwise, one selection point \<open>sp0\<close> sits on
  the first coordinate, and the mid-point manager returns \<open>undefined\<close>.
\<close>

definition mean :: "position list \<Rightarrow> position" where
  "mean cs = (sum_list (map fst cs) / real (length cs), sum_list (map snd cs) / real (length cs))"

definition planar :: collaborators where
  "planar =
     \<lparr>measure = (\<lambda>e c. \<bar>containerX e - fst c\<bar> + \<bar>containerY e - snd c\<bar>),
      selectionPointsGetUpdated = (\<lambda>cs. Some (case cs of [] \<Rightarrow> [] | c # rest \<Rightarrow> [(''sp0'', Point c)])),
      midPointsGetUpdated = (\<lambda>cs. None),
      centroid = (\<lambda>g. case g of
                         Point p \<Rightarrow> p
                       | LineString cs \<Rightarrow> mean cs
                       | Polygon rings \<Rightarrow> (case rings of [] \<Rightarrow> (0, 0) | ring # rest \<Rightarrow> mean (butlast ring))),
      haversineDistanceKilometers = (\<lambda>a b. \<bar>fst a - fst b\<bar> + \<bar>snd a - snd b\<bar>),
      scaleCoordinate = (\<lambda>origin factor c.
                           (fst origin + factor * (fst c - fst origin),
                            snd origin + factor * (snd c - snd origin))),
      scaleCoordinateNonFinite = (\<lambda>origin factor c. (NaN, NaN)),
      selectionPointsGetUpdatedNonFinite =
        (\<lambda>cs. Some (case cs of [] \<Rightarrow> [] | c # rest \<Rightarrow> [(''sp0'', JSPoint c)])),
      midPointsGetUpdatedNonFinite = (\<lambda>cs. None)\<rparr>"

text \<open>A store with the feature \<open>f\<close> and the handle \<open>sp0\<close>; \<open>f\<close> is being dragged.\<close>

definition world_with :: "geometry \<Rightarrow> position option \<Rightarrow> real option \<Rightarrow> world" where
  "world_with g anchor previous =
     \<lparr>store = \<lparr>features = (\<lambda>i. if i = ''f'' then Some g
                               else if i = ''sp0'' then Some (Point (0, 0)) else None),
                emitted = []\<rparr>,
      mapDraggable = True,
      draggedFeatureId = Some ''f'',
      dragPosition = anchor,
      lastDistance = previous\<rparr>"

definition pointer :: "real \<Rightarrow> real \<Rightarrow> event" where
  "pointer x y = \<lparr>lng = x, lat = y, containerX = x, containerY = y, hasSetDraggability = True\<rparr>"

definition config6 :: config where
  "config6 = \<lparr>pointerDistance = 5, coordinatePrecision = 6\<rparr>"

definition square :: "position list" where
  "square = [(0, 0), (0, 10), (10, 10), (10, 0), (0, 0)]"

section \<open>Facts about the store\<close>

lemmas run_defs =
  planar_def world_with_def pointer_def config6_def square_def mean_def
  getGeometryCopy_def updateGeometry_def commit_def disableDraggability_def updates_def
  closeIfPolygon_def closeRing_def

lemma put_other: "i \<notin> fst ` set us \<Longrightarrow> put m us i = m i"
  by (induction us arbitrary: m) auto

lemma store_changes: "st\<lparr>features := m, emitted := emitted st @ [x]\<rparr> \<noteq> st"
proof
  assume "st\<lparr>features := m, emitted := emitted st @ [x]\<rparr> = st"
  then have "emitted (st\<lparr>features := m, emitted := emitted st @ [x]\<rparr>) = emitted st" by simp
  then show False by simp
qed

lemma updateGeometry_changes: "updateGeometry st us = Inr st' \<Longrightarrow> st' \<noteq> st"
  using store_changes by (auto simp: updateGeometry_def split: if_splits)

lemma store_disableDraggability [simp]: "store (disableDraggability e w) = store w"
  by (simp add: disableDraggability_def)

section \<open>Facts about the loops of Feature-Drag\<close>

lemma shiftChecked_None:
  "shiftChecked a m cs = None \<longleftrightarrow> (\<exists>c \<in> set cs. invalid (updatedLng a m c) (updatedLat a m c))"
  by (induction cs) (auto split: option.splits)

lemma shiftCheckedLimited_None:
  "shiftCheckedLimited p a m cs = None \<longleftrightarrow> (\<exists>c \<in> set cs. invalid (updatedLng a m c) (updatedLat a m c))"
  by (induction cs) (auto split: option.splits)

lemma take_butlast_ring: "take (nat (int (length ring) - 1)) ring = butlast ring"
  by (simp add: butlast_conv_take nat_diff_distrib')

section \<open>Feature-Drag: a coordinate out of range\<close>

text \<open>
  C1, as the variants of part\_002 have it. The feature \<open>fid\<close> is being dragged from \<open>anchor\<close>,
  and \<open>c\<close> is a coordinate the loop moves (any coordinate of a LineString, any but the closing
  one of a Polygon's ring 0) whose moved position is outside longitude \<open>[-180, 180]\<close> or
  latitude \<open>[-90, 90]\<close>. Then \<open>drag\<close> returns \<open>false\<close> and leaves the whole state as it was:
  no geometry and no handle is written, no Change Record is emitted, the anchor stays.
\<close>

theorem feature_drag_rejects_out_of_range:
  assumes "draggedFeatureId w = Some fid" and "fid \<noteq> []" and "dragPosition w = Some anchor"
    and "features (store w) fid = Some g"
    and "g = LineString cs \<and> c \<in> set cs \<or> g = Polygon (ring # rings) \<and> c \<in> set (butlast ring)"
    and "invalid (updatedLng anchor (lng e, lat e) c) (updatedLat anchor (lng e, lat e) c)"
  shows "drag_part_002_first col w e = Returned (Bool False) w
       \<and> drag_part_002_second cfg col w e = Returned (Bool False) w"
proof -
  from assms(5) show ?thesis
  proof
    assume g: "g = LineString cs \<and> c \<in> set cs"
    with assms(6) have "shiftChecked anchor (lng e, lat e) cs = None"
      and "shiftCheckedLimited (coordinatePrecision cfg) anchor (lng e, lat e) cs = None"
      by (auto simp: shiftChecked_None shiftCheckedLimited_None)
    with g assms(1-4) show ?thesis
      by (simp add: drag_part_002_first_def drag_part_002_second_def drag_part_002_def
          getGeometryCopy_def translate_part_002_first_def translate_part_002_second_def)
  next
    assume g: "g = Polygon (ring # rings) \<and> c \<in> set (butlast ring)"
    with assms(6) have "shiftChecked anchor (lng e, lat e) (butlast ring) = None"
      and "shiftCheckedLimited (coordinatePrecision cfg) anchor (lng e, lat e) (butlast ring) = None"
      by (auto simp: shiftChecked_None shiftCheckedLimited_None)
    with g assms(1-4) show ?thesis
      by (simp add: drag_part_002_first_def drag_part_002_second_def drag_part_002_def
          getGeometryCopy_def translate_part_002_first_def translate_part_002_second_def
          take_butlast_ring)
  qed
qed

text \<open>
  C1, a run: the line \<open>[(0, 5), (1, 1)]\<close> dragged from \<open>(0, 0)\<close> to \<open>(0, 90)\<close> would put its
  first coordinate at latitude 95; both variants of part\_002 return \<open>false\<close> with the state
  untouched.
\<close>

theorem feature_drag_rejects_out_of_range_witness:
  "drag_part_002_first planar (world_with (LineString [(0, 5), (1, 1)]) (Some (0, 0)) None) (pointer 0 90)
     = Returned (Bool False) (world_with (LineString [(0, 5), (1, 1)]) (Some (0, 0)) None)
   \<and> drag_part_002_second config6 planar (world_with (LineString [(0, 5), (1, 1)]) (Some (0, 0)) None) (pointer 0 90)
     = Returned (Bool False) (world_with (LineString [(0, 5), (1, 1)]) (Some (0, 0)) None)
   \<and> updatedLat (0, 0) (0, 90) (0, 5) = 95"
  using feature_drag_rejects_out_of_range [of "world_with (LineString [(0, 5), (1, 1)]) (Some (0, 0)) None"
      "''f''" "(0, 0)" "LineString [(0, 5), (1, 1)]" "[(0, 5), (1, 1)]" "(0, 5)" "[]" "[]" "pointer 0 90" planar config6]
  by (simp add: world_with_def pointer_def invalid_def updatedLng_def updatedLat_def)

text \<open>
  C1 does not hold of the variant of part\_001: on the same line and the same pointer, where
  the first coordinate would move to latitude 95, its \<open>drag\<close> returns normally, the store holds
  new coordinates for the feature, and a Change Record for the feature and its handle is
  emitted.
\<close>

theorem part_001_commits_out_of_range:
  "result_of (drag_part_001 planar (world_with (LineString [(0, 5), (1, 1)]) (Some (0, 0)) None) (pointer 0 90) ''f'') = Some Undefined
   \<and> features (store (world_of (drag_part_001 planar (world_with (LineString [(0, 5), (1, 1)]) (Some (0, 0)) None) (pointer 0 90) ''f''))) ''f''
       = Some (LineString [(0, - 75), (1, - 79)])
   \<and> emitted (store (world_of (drag_part_001 planar (world_with (LineString [(0, 5), (1, 1)]) (Some (0, 0)) None) (pointer 0 90) ''f'')))
       = [[''f'', ''sp0'']]
   \<and> updatedLat (0, 0) (0, 90) (0, 5) = 95"
  by (simp add: run_defs drag_part_001_def translate_part_001_def clampDelta_def validateDeltaRange_def
      component_def with_component_def shiftBy_def updatedLat_def)

section \<open>Feature-Drag: the anchor\<close>

text \<open>
  C6, as the variants of part\_002 have it: whenever a call of \<open>drag\<close> writes the store (every
  update appends a Change Record, so the store differs exactly when an update went through),
  \<open>dragPosition\<close> afterwards is the pointer position of that call.
\<close>

theorem anchor_advances_on_commit:
  "(store (world_of (drag_part_002_first col w e)) \<noteq> store w
      \<longrightarrow> dragPosition (world_of (drag_part_002_first col w e)) = Some (lng e, lat e))
   \<and> (store (world_of (drag_part_002_second cfg col w e)) \<noteq> store w
      \<longrightarrow> dragPosition (world_of (drag_part_002_second cfg col w e)) = Some (lng e, lat e))"
  by (auto simp: drag_part_002_first_def drag_part_002_second_def drag_part_002_def
      translate_part_002_first_def translate_part_002_second_def finish_part_002_def commit_def
      split: option.splits sum.splits geometry.splits list.splits if_splits)

text \<open>
  C6, a run: the square dragged from \<open>(0, 0)\<close> to \<open>(1, 1)\<close>. Both variants of part\_002 emit
  a Change Record and leave the anchor at \<open>(1, 1)\<close>.
\<close>

theorem anchor_advances_on_commit_witness:
  "emitted (store (world_of (drag_part_002_first planar (world_with (Polygon [square]) (Some (0, 0)) None) (pointer 1 1))))
     = [[''f'', ''sp0'']]
   \<and> dragPosition (world_of (drag_part_002_first planar (world_with (Polygon [square]) (Some (0, 0)) None) (pointer 1 1))) = Some (1, 1)
   \<and> emitted (store (world_of (drag_part_002_second config6 planar (world_with (Polygon [square]) (Some (0, 0)) None) (pointer 1 1))))
     = [[''f'', ''sp0'']]
   \<and> dragPosition (world_of (drag_part_002_second config6 planar (world_with (Polygon [square]) (Some (0, 0)) None) (pointer 1 1))) = Some (1, 1)"
proof -
  have a: "emitted (store (world_of (drag_part_002_first planar (world_with (Polygon [square]) (Some (0, 0)) None) (pointer 1 1))))
     = [[''f'', ''sp0'']]"
    by (simp add: run_defs drag_part_002_first_def drag_part_002_def translate_part_002_first_def
        finish_part_002_def invalid_def updatedLng_def updatedLat_def Let_def)
  have b: "emitted (store (world_of (drag_part_002_second config6 planar (world_with (Polygon [square]) (Some (0, 0)) None) (pointer 1 1))))
     = [[''f'', ''sp0'']]"
    by (simp add: run_defs drag_part_002_second_def drag_part_002_def translate_part_002_second_def
        finish_part_002_def invalid_def updatedLng_def updatedLat_def)
  have c: "emitted (store (world_with (Polygon [square]) (Some (0, 0)) None)) = []"
    by (simp add: world_with_def)
  from a c have a': "store (world_of (drag_part_002_first planar (world_with (Polygon [square]) (Some (0, 0)) None) (pointer 1 1)))
     \<noteq> store (world_with (Polygon [square]) (Some (0, 0)) None)" by auto
  from b c have b': "store (world_of (drag_part_002_second config6 planar (world_with (Polygon [square]) (Some (0, 0)) None) (pointer 1 1)))
     \<noteq> store (world_with (Polygon [square]) (Some (0, 0)) None)" by auto
  from a b a' b' anchor_advances_on_commit [of planar "world_with (Polygon [square]) (Some (0, 0)) None" "pointer 1 1" config6]
  show ?thesis by (simp add: pointer_def)
qed

text \<open>
  C6 does not hold of the variant of part\_001: on the same square and pointer its \<open>drag\<close>
  commits the moved ring and emits a Change Record, and \<open>dragPosition\<close> is still \<open>(0, 0)\<close>.
\<close>

theorem part_001_anchor_stays:
  "result_of (drag_part_001 planar (world_with (Polygon [square]) (Some (0, 0)) None) (pointer 1 1) ''f'') = Some Undefined
   \<and> features (store (world_of (drag_part_001 planar (world_with (Polygon [square]) (Some (0, 0)) None) (pointer 1 1) ''f''))) ''f''
       = Some (Polygon [[(1, 1), (1, 11), (11, 11), (11, 1), (1, 1)]])
   \<and> emitted (store (world_of (drag_part_001 planar (world_with (Polygon [square]) (Some (0, 0)) None) (pointer 1 1) ''f'')))
       = [[''f'', ''sp0'']]
   \<and> dragPosition (world_of (drag_part_001 planar (world_with (Polygon [square]) (Some (0, 0)) None) (pointer 1 1) ''f'')) = Some (0, 0)"
  by (simp add: run_defs drag_part_001_def translate_part_001_def clampDelta_def validateDeltaRange_def
      component_def with_component_def shiftBy_def)

section \<open>Feature-Drag: the clamping loop of the first variant of part\_002\<close>

text \<open>
  C9. In the first variant of part\_002 the loop over \<open>validateDeltaRange\<close> writes the outer
  \<open>delta\<close>, and the loop that moves the coordinates declares its own \<open>delta\<close> from
  \<open>dragPosition\<close> and the pointer. So for every state and event \<open>drag\<close> ends exactly as the
  same function without the clamping loop: the same return value, the same store, the same
  anchor.
\<close>

theorem clamping_pass_has_no_effect:
  "drag_part_002_first col w e = drag_part_002_first_unclamped col w e"
proof -
  have "translate_part_002_first col = translate_part_002_first_unclamped col"
    by (intro ext)
      (simp add: translate_part_002_first_def translate_part_002_first_unclamped_def Let_def
        split: option.splits)
  then show ?thesis
    by (simp add: drag_part_002_first_def drag_part_002_first_unclamped_def)
qed

section \<open>Feature-Drag: the clamped delta of part\_001\<close>

text \<open>
  C10, a run of the variant of part\_001. The line from latitude \<open>-81\<close> to latitude \<open>80\<close> is
  dragged north by 6 degrees. The second coordinate would reach 86, so \<open>validateDeltaRange\<close>
  sets the latitude delta to \<open>max - position = 5\<close>; the line moves south by 5 and the
  committed latitude \<open>-86\<close> is outside \<open>[-85, 85]\<close>.
\<close>

theorem part_001_latitude_leaves_range:
  "result_of (drag_part_001 planar (world_with (LineString [(0, - 81), (0, 80)]) (Some (0, 0)) None) (pointer 0 6) ''f'') = Some Undefined
   \<and> features (store (world_of (drag_part_001 planar (world_with (LineString [(0, - 81), (0, 80)]) (Some (0, 0)) None) (pointer 0 6) ''f''))) ''f''
       = Some (LineString [(0, - 86), (0, 75)])
   \<and> clampDelta [(0, - 81), (0, 80)] (0, - 6) = (0, 5)"
  by (simp add: run_defs drag_part_001_def translate_part_001_def clampDelta_def validateDeltaRange_def
      component_def with_component_def shiftBy_def)

section \<open>Feature-Scale\<close>

text \<open>
  C7. For a LineString or a Polygon, when \<open>lastDistance\<close> is unset (\<open>undefined\<close>, or \<open>0\<close>, which
  \<open>!this.lastDistance\<close> treats alike), \<open>scale\<close> stores the distance from the centroid to the
  pointer in \<open>lastDistance\<close> and returns; the store is as before. For a Point, \<open>scale\<close>
  returns at once and nothing at all changes.
\<close>

theorem scale_first_tick_and_point:
  assumes "features (store w) fid = Some g"
  shows "((lastDistance w = None \<or> lastDistance w = Some 0) \<and> (g = LineString cs \<or> g = Polygon rings)
           \<longrightarrow> scale cfg col w e fid =
                 Returned Undefined
                   ((disableDraggability e w)
                      \<lparr>lastDistance := Some (haversineDistanceKilometers col (centroid col g) (lng e, lat e))\<rparr>)
               \<and> store (world_of (scale cfg col w e fid)) = store w)
       \<and> (g = Point p \<longrightarrow> scale cfg col w e fid = Returned Undefined w)"
  using assms
  by (auto simp: scale_def rescale_def getGeometryCopy_def disableDraggability_def Let_def)

text \<open>
  C7, two runs: a first tick on a line, whose centroid \<open>(1, 0)\<close> is at distance 3 of the
  pointer, and a tick on a Point.
\<close>

theorem scale_first_tick_and_point_witness:
  "scale config6 planar (world_with (LineString [(0, 0), (2, 0)]) None None) (pointer 4 0) ''f''
     = Returned Undefined
         ((disableDraggability (pointer 4 0) (world_with (LineString [(0, 0), (2, 0)]) None None))
            \<lparr>lastDistance := Some 3\<rparr>)
   \<and> store (world_of (scale config6 planar (world_with (LineString [(0, 0), (2, 0)]) None None) (pointer 4 0) ''f''))
     = store (world_with (LineString [(0, 0), (2, 0)]) None None)
   \<and> scale config6 planar (world_with (Point (1, 1)) None (Some 3)) (pointer 4 0) ''f''
     = Returned Undefined (world_with (Point (1, 1)) None (Some 3))"
proof -
  have f: "features (store (world_with (LineString [(0, 0), (2, 0)]) None None)) ''f''
             = Some (LineString [(0, 0), (2, 0)])"
    and l: "lastDistance (world_with (LineString [(0, 0), (2, 0)]) None None) = None"
    and p: "features (store (world_with (Point (1, 1)) None (Some 3))) ''f'' = Some (Point (1, 1))"
    by (simp_all add: world_with_def)
  have d: "haversineDistanceKilometers planar (centroid planar (LineString [(0, 0), (2, 0)]))
             (lng (pointer 4 0), lat (pointer 4 0)) = 3"
    by (simp add: planar_def pointer_def mean_def)
  from scale_first_tick_and_point [OF f, of "[(0, 0), (2, 0)]" "[]" config6 planar "pointer 4 0" "(0, 0)"] l d
    scale_first_tick_and_point [OF p, of "[]" "[]" config6 planar "pointer 4 0" "(1, 1)"]
  show ?thesis by simp
qed

text \<open>
  C8, as the code has it. On a LineString or a Polygon with \<open>lastDistance = previous\<close> and
  the distance \<open>distance\<close> from the centroid to the pointer:
  a zero \<open>previous\<close> (a zero distance at the baseline tick) falls under the first-tick rule;
  with \<open>previous\<close> and \<open>distance\<close> both non-zero the factor is the finite number
  \<open>1 - (previous - distance) / distance\<close> and \<open>scale\<close> goes on to transform with it;
  with a non-zero \<open>previous\<close> and a zero \<open>distance\<close> the division is by zero, the factor is an
  infinity, and \<open>scale\<close> goes on in the same way: it transforms with the infinity, limits
  the precision, and updates the store with what it got.
\<close>

theorem scale_factor_finite_iff:
  assumes "features (store w) fid = Some g" and "g = LineString cs \<or> g = Polygon rings"
    and "lastDistance w = Some previous"
    and "distance = haversineDistanceKilometers col (centroid col g) (lng e, lat e)"
  shows "(previous = 0 \<longrightarrow>
            scale cfg col w e fid = Returned Undefined ((disableDraggability e w)\<lparr>lastDistance := Some distance\<rparr>))
       \<and> (previous \<noteq> 0 \<and> distance \<noteq> 0 \<longrightarrow>
            scaleFactor previous distance = Finite (1 - (previous - distance) / distance)
          \<and> scale cfg col w e fid =
              scaled cfg col (disableDraggability e w) fid distance
                (transformScale col g (1 - (previous - distance) / distance)))
       \<and> (previous \<noteq> 0 \<and> distance = 0 \<longrightarrow>
            scaleFactor previous distance = (if previous > 0 then NegInfinity else PosInfinity)
          \<and> scale cfg col w e fid =
              scaledNonFinite cfg col (disableDraggability e w) fid distance
                (transformScaleNonFinite col g (if previous > 0 then NegInfinity else PosInfinity)))"
  using assms
  by (auto simp: scale_def rescale_def getGeometryCopy_def disableDraggability_def Let_def
      scaleFactor_def js_divide_def)

text \<open>
  C8, a run with a finite factor: baseline 3, the pointer now at distance 6 of the centroid
  \<open>(1, 0)\<close>; the factor is \<open>3 / 2\<close>.
\<close>

theorem scale_factor_finite_iff_witness:
  "scaleFactor 3 6 = Finite (3 / 2)
   \<and> scale config6 planar (world_with (LineString [(0, 0), (2, 0)]) None (Some 3)) (pointer 7 0) ''f''
     = scaled config6 planar
         (disableDraggability (pointer 7 0) (world_with (LineString [(0, 0), (2, 0)]) None (Some 3)))
         ''f'' 6 (transformScale planar (LineString [(0, 0), (2, 0)]) (3 / 2))
   \<and> transformScale planar (LineString [(0, 0), (2, 0)]) (3 / 2) = LineString [(- 1 / 2, 0), (5 / 2, 0)]"
proof -
  have f: "features (store (world_with (LineString [(0, 0), (2, 0)]) None (Some 3))) ''f''
             = Some (LineString [(0, 0), (2, 0)])"
    and l: "lastDistance (world_with (LineString [(0, 0), (2, 0)]) None (Some 3)) = Some 3"
    by (simp_all add: world_with_def)
  have d: "6 = haversineDistanceKilometers planar (centroid planar (LineString [(0, 0), (2, 0)]))
             (lng (pointer 7 0), lat (pointer 7 0))"
    by (simp add: planar_def pointer_def mean_def)
  have t: "transformScale planar (LineString [(0, 0), (2, 0)]) (3 / 2) = LineString [(- 1 / 2, 0), (5 / 2, 0)]"
    by (simp add: transformScale_def planar_def mean_def)
  from scale_factor_finite_iff [OF f _ l d, of "[(0, 0), (2, 0)]" "[]" config6] t
  show ?thesis by simp
qed

text \<open>
  C8 fails as stated: with the baseline 3 stored and the pointer on the centroid \<open>(1, 0)\<close>
  of the line, the distance is 0, the factor \<open>1 - (3 - 0) / 0\<close> is \<open>-Infinity\<close>, and \<open>scale\<close>
  goes on to \<open>transformScale\<close> with it. With a transform that makes \<open>NaN\<close> of every value,
  the line and its selection point are committed with \<open>NaN\<close> coordinates, one Change Record
  is emitted, and \<open>lastDistance\<close> is 0.
\<close>

theorem scale_zero_distance_not_finite:
  "scale config6 planar (world_with (LineString [(0, 0), (2, 0)]) None (Some 3)) (pointer 1 0) ''f''
     = scaledNonFinite config6 planar
         (disableDraggability (pointer 1 0) (world_with (LineString [(0, 0), (2, 0)]) None (Some 3)))
         ''f'' 0 (transformScaleNonFinite planar (LineString [(0, 0), (2, 0)]) NegInfinity)
   \<and> haversineDistanceKilometers planar (centroid planar (LineString [(0, 0), (2, 0)])) (1, 0) = 0
   \<and> scaleFactor 3 0 = NegInfinity
   \<and> committedNonFinite
         (scale config6 planar (world_with (LineString [(0, 0), (2, 0)]) None (Some 3)) (pointer 1 0) ''f'')
       = [(''f'', JSLineString [(NaN, NaN), (NaN, NaN)]), (''sp0'', JSPoint (NaN, NaN))]
   \<and> emitted (store (world_of
         (scale config6 planar (world_with (LineString [(0, 0), (2, 0)]) None (Some 3)) (pointer 1 0) ''f'')))
       = [[''f'', ''sp0'']]
   \<and> lastDistance (world_of
         (scale config6 planar (world_with (LineString [(0, 0), (2, 0)]) None (Some 3)) (pointer 1 0) ''f''))
       = Some 0"
proof -
  let ?w = "world_with (LineString [(0, 0), (2, 0)]) None (Some 3)"
  have d: "haversineDistanceKilometers planar (centroid planar (LineString [(0, 0), (2, 0)])) (1, 0) = 0"
    by (simp add: planar_def mean_def)
  have f: "scaleFactor 3 0 = NegInfinity" by (simp add: scaleFactor_def js_divide_def)
  have g: "features (store ?w) ''f'' = Some (LineString [(0, 0), (2, 0)])"
    by (simp add: world_with_def)
  have l: "lastDistance (disableDraggability (pointer 1 0) ?w) = Some 3"
    by (simp add: disableDraggability_def world_with_def)
  have e: "haversineDistanceKilometers planar (centroid planar (LineString [(0, 0), (2, 0)]))
             (lng (pointer 1 0), lat (pointer 1 0)) = 0"
    by (simp add: planar_def pointer_def mean_def)
  from g l e f have s: "scale config6 planar ?w (pointer 1 0) ''f''
     = scaledNonFinite config6 planar (disableDraggability (pointer 1 0) ?w)
         ''f'' 0 (transformScaleNonFinite planar (LineString [(0, 0), (2, 0)]) NegInfinity)"
    by (simp add: scale_def rescale_def getGeometryCopy_def)
  have t: "transformScaleNonFinite planar (LineString [(0, 0), (2, 0)]) NegInfinity
             = JSLineString [(NaN, NaN), (NaN, NaN)]"
    by (simp add: transformScaleNonFinite_def planar_def)
  have c: "scaledNonFinite config6 planar (disableDraggability (pointer 1 0) ?w) ''f'' 0
             (JSLineString [(NaN, NaN), (NaN, NaN)])
           = CommittedNonFinite
               ((disableDraggability (pointer 1 0) ?w)
                  \<lparr>store := (store ?w)
                     \<lparr>features := forget (features (store ?w))
                                     [(''f'', JSLineString [(NaN, NaN), (NaN, NaN)]), (''sp0'', JSPoint (NaN, NaN))],
                      emitted := [[''f'', ''sp0'']]\<rparr>,
                   lastDistance := Some 0\<rparr>)
               [(''f'', JSLineString [(NaN, NaN), (NaN, NaN)]), (''sp0'', JSPoint (NaN, NaN))]"
    by (simp add: scaledNonFinite_def commitNonFinite_def updateGeometryNonFinite_def updatesNonFinite_def
        limitCoordsNonFinite_def world_with_def pointer_def planar_def config6_def disableDraggability_def)
  from d f s t c show ?thesis by simp
qed

section \<open>Coordinate-Drag: the hit test\<close>

lemma scan_skip:
  "(\<And>c. c \<in> set cs \<Longrightarrow> \<not> (m c < tol \<and> below (m c) (dist cl)))
   \<Longrightarrow> scan m tol isPolygon n i cs cl = cl"
  by (induction cs arbitrary: i) auto

lemma scan_first_closest:
  assumes "j < length cs" and "m (cs ! j) < tol" and "below (m (cs ! j)) (dist cl)"
    and "\<And>k. k < length cs \<Longrightarrow> m (cs ! j) \<le> m (cs ! k)"
    and "\<And>k. k < j \<Longrightarrow> m (cs ! j) < m (cs ! k)"
  shows "scan m tol isPolygon n i cs cl =
           \<lparr>dist = Some (m (cs ! j)),
            index = (if isPolygon \<and> (int (i + j) = int n - 1 \<or> i + j = 0) then 0 else int (i + j)),
            isFirstOrLastPolygonCoord = (isPolygon \<and> (int (i + j) = int n - 1 \<or> i + j = 0))\<rparr>"
  using assms
proof (induction cs arbitrary: i j cl)
  case Nil
  then show ?case by simp
next
  case (Cons c rest)
  show ?case
  proof (cases j)
    case 0
    have rest: "\<And>c'. c' \<in> set rest \<Longrightarrow> \<not> m c' < m c"
    proof -
      fix c' assume "c' \<in> set rest"
      then obtain k where "k < length rest" and "rest ! k = c'"
        by (auto simp: in_set_conv_nth)
      with Cons.prems(4) [of "Suc k"] 0 show "\<not> m c' < m c" by auto
    qed
    from 0 Cons.prems(2,3) have step: "m c < tol \<and> below (m c) (dist cl)" by simp
    have "scan m tol isPolygon n (Suc i) rest
            \<lparr>dist = Some (m c),
             index = (if isPolygon \<and> (int i = int n - 1 \<or> i = 0) then 0 else int i),
             isFirstOrLastPolygonCoord = (isPolygon \<and> (int i = int n - 1 \<or> i = 0))\<rparr>
          = \<lparr>dist = Some (m c),
             index = (if isPolygon \<and> (int i = int n - 1 \<or> i = 0) then 0 else int i),
             isFirstOrLastPolygonCoord = (isPolygon \<and> (int i = int n - 1 \<or> i = 0))\<rparr>"
      by (rule scan_skip) (use rest in auto)
    with step 0 show ?thesis by simp
  next
    case (Suc j')
    let ?cl' = "if m c < tol \<and> below (m c) (dist cl)
        then \<lparr>dist = Some (m c),
              index = (if isPolygon \<and> (int i = int n - 1 \<or> i = 0) then 0 else int i),
              isFirstOrLastPolygonCoord = (isPolygon \<and> (int i = int n - 1 \<or> i = 0))\<rparr>
        else cl"
    from Cons.prems(5) [of 0] Suc have lt: "m (rest ! j') < m c" by simp
    from Cons.prems(3) Suc lt have below': "below (m (rest ! j')) (dist ?cl')" by simp
    have "scan m tol isPolygon n (Suc i) rest ?cl' =
           \<lparr>dist = Some (m (rest ! j')),
            index = (if isPolygon \<and> (int (Suc i + j') = int n - 1 \<or> Suc i + j' = 0) then 0 else int (Suc i + j')),
            isFirstOrLastPolygonCoord = (isPolygon \<and> (int (Suc i + j') = int n - 1 \<or> Suc i + j' = 0))\<rparr>"
    proof (rule Cons.IH [OF _ _ below'])
      from Cons.prems(1) Suc show "j' < length rest" by simp
      from Cons.prems(2) Suc show "m (rest ! j') < tol" by simp
      show "\<And>k. k < length rest \<Longrightarrow> m (rest ! j') \<le> m (rest ! k)"
        using Cons.prems(4) Suc by (metis length_Cons not_less_eq nth_Cons_Suc)
      show "\<And>k. k < j' \<Longrightarrow> m (rest ! j') < m (rest ! k)"
        using Cons.prems(5) Suc by (metis Suc_less_eq nth_Cons_Suc)
    qed
    with Suc show ?thesis by simp
  qed
qed

lemma first_closest_exists:
  assumes "c \<in> set cs" and "d c < tol"
  shows "\<exists>j. first_closest d tol cs j"
proof -
  let ?mn = "Min (d ` set cs)"
  have fin: "finite (d ` set cs)" and ne: "d ` set cs \<noteq> {}" using assms by auto
  have "?mn \<in> d ` set cs" using fin ne by (rule Min_in)
  then obtain c0 where "c0 \<in> set cs" and c0: "d c0 = ?mn" by auto
  then obtain j0 where "j0 < length cs" and "cs ! j0 = c0"
    by (auto simp: in_set_conv_nth)
  with c0 have j0: "j0 < length cs \<and> d (cs ! j0) = ?mn" by simp
  define j where "j = (LEAST j. j < length cs \<and> d (cs ! j) = ?mn)"
  have j: "j < length cs \<and> d (cs ! j) = ?mn"
    unfolding j_def using j0 by (rule LeastI)
  have least: "\<And>k. k < j \<Longrightarrow> \<not> (k < length cs \<and> d (cs ! k) = ?mn)"
    unfolding j_def by (rule not_less_Least)
  have le: "\<And>k. k < length cs \<Longrightarrow> ?mn \<le> d (cs ! k)"
    using fin by (simp add: Min_le)
  have "?mn \<le> d c" using fin assms(1) by (simp add: Min_le)
  with assms(2) have "?mn < tol" by simp
  moreover have "\<And>k. k < j \<Longrightarrow> ?mn < d (cs ! k)"
  proof -
    fix k assume k: "k < j"
    with j have kl: "k < length cs" by simp
    with least [OF k] have "d (cs ! k) \<noteq> ?mn" by simp
    with le [OF kl] show "?mn < d (cs ! k)" by simp
  qed
  ultimately have "first_closest d tol cs j"
    using j le by (simp add: first_closest_def)
  then show ?thesis ..
qed

lemma scan_never_last:
  "1 < n \<Longrightarrow> index cl \<noteq> int n - 1 \<Longrightarrow> index (scan m tol True n i cs cl) \<noteq> int n - 1"
  by (induction cs arbitrary: i cl) auto

lemma scan_from_start:
  assumes "first_closest d tol cs j"
  shows "index (scan d tol isPolygon (length cs) 0 cs closestCoordinate0) =
           (if isPolygon \<and> (j = 0 \<or> Suc j = length cs) then 0 else int j)"
proof -
  from assms have a: "j < length cs" "d (cs ! j) < tol"
    "\<And>k. k < length cs \<Longrightarrow> d (cs ! j) \<le> d (cs ! k)" "\<And>k. k < j \<Longrightarrow> d (cs ! j) < d (cs ! k)"
    by (auto simp: first_closest_def)
  have b: "below (d (cs ! j)) (dist closestCoordinate0)" by (simp add: closestCoordinate0_def)
  have "(int j = int (length cs) - 1) = (Suc j = length cs)" by auto
  moreover have "scan d tol isPolygon (length cs) 0 cs closestCoordinate0 =
           \<lparr>dist = Some (d (cs ! j)),
            index = (if isPolygon \<and> (int (0 + j) = int (length cs) - 1 \<or> 0 + j = 0) then 0 else int (0 + j)),
            isFirstOrLastPolygonCoord = (isPolygon \<and> (int (0 + j) = int (length cs) - 1 \<or> 0 + j = 0))\<rparr>"
    using a b by (intro scan_first_closest) auto
  ultimately show ?thesis by simp
qed

lemma scan_none:
  assumes "\<And>c. c \<in> set cs \<Longrightarrow> \<not> d c < tol"
  shows "index (scan d tol isPolygon n 0 cs closestCoordinate0) = - 1"
proof -
  have "scan d tol isPolygon n 0 cs closestCoordinate0 = closestCoordinate0"
    by (rule scan_skip) (use assms in auto)
  then show ?thesis by (simp add: closestCoordinate0_def)
qed

text \<open>
  C3. For the selected feature \<open>g\<close>, with \<open>measure\<close> the pixel distance and \<open>pointerDistance\<close>
  the tolerance: a Point gives \<open>-1\<close>; a LineString or the ring 0 of a Polygon gives \<open>-1\<close> when no
  coordinate is strictly within the tolerance; otherwise, for the first index \<open>j\<close> at which the
  distance is minimal (\<open>first_closest\<close>; such an index exists as soon as one coordinate is
  within the tolerance), a LineString gives \<open>j\<close> and a Polygon gives \<open>0\<close> when \<open>j\<close> is the first
  or the last index of the ring, and \<open>j\<close> otherwise. For the ring
  \<open>[[0,0],[0,10],[10,10],[10,0],[0,0]]\<close> with the pointer within the tolerance of \<open>[0,0]\<close> and
  no coordinate nearer, the result is \<open>0\<close>; and whatever the pointer, it is never \<open>4\<close>.
\<close>

theorem hit_test_returns_first_closest:
  assumes "features (store w) fid = Some g"
  shows "(g = Point p \<longrightarrow> isCoordinateNearEvent cfg col w e fid = Inr (- 1))
    \<and> (g = LineString cs \<and> (\<forall>c \<in> set cs. \<not> measure col e c < pointerDistance cfg)
         \<longrightarrow> isCoordinateNearEvent cfg col w e fid = Inr (- 1))
    \<and> (g = LineString cs \<and> first_closest (measure col e) (pointerDistance cfg) cs j
         \<longrightarrow> isCoordinateNearEvent cfg col w e fid = Inr (int j))
    \<and> (g = Polygon (cs # rings) \<and> (\<forall>c \<in> set cs. \<not> measure col e c < pointerDistance cfg)
         \<longrightarrow> isCoordinateNearEvent cfg col w e fid = Inr (- 1))
    \<and> (g = Polygon (cs # rings) \<and> first_closest (measure col e) (pointerDistance cfg) cs j
         \<longrightarrow> isCoordinateNearEvent cfg col w e fid = Inr (if j = 0 \<or> Suc j = length cs then 0 else int j))
    \<and> ((\<exists>c \<in> set cs. measure col e c < pointerDistance cfg)
         \<longrightarrow> (\<exists>k. first_closest (measure col e) (pointerDistance cfg) cs k))
    \<and> (g = Polygon (square # rings) \<and> measure col e (0, 0) < pointerDistance cfg
          \<and> (\<forall>c \<in> set square. measure col e (0, 0) \<le> measure col e c)
         \<longrightarrow> isCoordinateNearEvent cfg col w e fid = Inr 0)
    \<and> (g = Polygon (square # rings) \<longrightarrow> isCoordinateNearEvent cfg col w e fid \<noteq> Inr 4)"
proof -
  have p: "g = Point p \<longrightarrow> isCoordinateNearEvent cfg col w e fid = Inr (- 1)"
    using assms by (simp add: isCoordinateNearEvent_def getGeometryCopy_def)
  have l0: "g = LineString cs \<and> (\<forall>c \<in> set cs. \<not> measure col e c < pointerDistance cfg)
         \<longrightarrow> isCoordinateNearEvent cfg col w e fid = Inr (- 1)"
    using assms by (auto simp: isCoordinateNearEvent_def getGeometryCopy_def scan_none)
  have l1: "g = LineString cs \<and> first_closest (measure col e) (pointerDistance cfg) cs j
         \<longrightarrow> isCoordinateNearEvent cfg col w e fid = Inr (int j)"
    using assms by (auto simp: isCoordinateNearEvent_def getGeometryCopy_def scan_from_start)
  have p0: "g = Polygon (cs # rings) \<and> (\<forall>c \<in> set cs. \<not> measure col e c < pointerDistance cfg)
         \<longrightarrow> isCoordinateNearEvent cfg col w e fid = Inr (- 1)"
    using assms by (auto simp: isCoordinateNearEvent_def getGeometryCopy_def scan_none)
  have p1: "g = Polygon (cs # rings) \<and> first_closest (measure col e) (pointerDistance cfg) cs j
         \<longrightarrow> isCoordinateNearEvent cfg col w e fid = Inr (if j = 0 \<or> Suc j = length cs then 0 else int j)"
    using assms by (auto simp: isCoordinateNearEvent_def getGeometryCopy_def scan_from_start)
  have ex: "(\<exists>c \<in> set cs. measure col e c < pointerDistance cfg)
         \<longrightarrow> (\<exists>k. first_closest (measure col e) (pointerDistance cfg) cs k)"
    using first_closest_exists by blast
  have sq0: "g = Polygon (square # rings) \<and> measure col e (0, 0) < pointerDistance cfg
          \<and> (\<forall>c \<in> set square. measure col e (0, 0) \<le> measure col e c)
         \<longrightarrow> isCoordinateNearEvent cfg col w e fid = Inr 0"
  proof (intro impI, elim conjE)
    assume g: "g = Polygon (square # rings)" and t: "measure col e (0, 0) < pointerDistance cfg"
      and m: "\<forall>c \<in> set square. measure col e (0, 0) \<le> measure col e c"
    have z: "square ! 0 = (0, 0)" and n: "0 < length square" by (simp_all add: square_def)
    have "first_closest (measure col e) (pointerDistance cfg) square 0"
      unfolding first_closest_def using t m n by (simp add: z)
    with g assms show "isCoordinateNearEvent cfg col w e fid = Inr 0"
      by (simp add: isCoordinateNearEvent_def getGeometryCopy_def scan_from_start)
  qed
  have sq4: "g = Polygon (square # rings) \<longrightarrow> isCoordinateNearEvent cfg col w e fid \<noteq> Inr 4"
  proof
    assume g: "g = Polygon (square # rings)"
    have "index (scan (measure col e) (pointerDistance cfg) True (length square) 0 square closestCoordinate0)
            \<noteq> int (length square) - 1"
      by (rule scan_never_last) (simp_all add: square_def closestCoordinate0_def)
    with g assms show "isCoordinateNearEvent cfg col w e fid \<noteq> Inr 4"
      by (simp add: isCoordinateNearEvent_def getGeometryCopy_def square_def)
  qed
  from p l0 l1 p0 p1 ex sq0 sq4 show ?thesis by blast
qed


text \<open>
  C3, runs on the square with tolerance 5: the pointer at \<open>(1, 1)\<close> is nearest to \<open>[0,0]\<close>,
  which is both index 0 and index 4, and the Polygon and the LineString both give \<open>0\<close>; at
  \<open>(9, 1)\<close> the Polygon gives \<open>3\<close>; at \<open>(5, 5)\<close> nothing is within the tolerance; a Point
  gives \<open>-1\<close>.
\<close>

theorem hit_test_returns_first_closest_witness:
  "isCoordinateNearEvent config6 planar (world_with (Polygon [square]) None None) (pointer 1 1) ''f'' = Inr 0
   \<and> isCoordinateNearEvent config6 planar (world_with (Polygon [square]) None None) (pointer 9 1) ''f'' = Inr 3
   \<and> isCoordinateNearEvent config6 planar (world_with (Polygon [square]) None None) (pointer 5 5) ''f'' = Inr (- 1)
   \<and> isCoordinateNearEvent config6 planar (world_with (LineString square) None None) (pointer 1 1) ''f'' = Inr 0
   \<and> isCoordinateNearEvent config6 planar (world_with (Point (1, 1)) None None) (pointer 1 1) ''f'' = Inr (- 1)"
proof -
  have fp: "features (store (world_with (Polygon [square]) None None)) ''f'' = Some (Polygon [square])"
    and fl: "features (store (world_with (LineString square) None None)) ''f'' = Some (LineString square)"
    and fq: "features (store (world_with (Point (1, 1)) None None)) ''f'' = Some (Point (1, 1))"
    by (simp_all add: world_with_def)
  have c0: "first_closest (measure planar (pointer 1 1)) (pointerDistance config6) square 0"
    and c3: "first_closest (measure planar (pointer 9 1)) (pointerDistance config6) square 3"
    by (simp_all add: first_closest_def planar_def pointer_def config6_def square_def All_less_Suc
        eval_nat_numeral)
  have no: "\<forall>c \<in> set square. \<not> measure planar (pointer 5 5) c < pointerDistance config6"
    by (simp add: planar_def pointer_def config6_def square_def)
  from hit_test_returns_first_closest [OF fp, where p = "(0, 0)" and cs = square and col = planar and e = "pointer 1 1" and cfg = config6 and j = 0 and rings = "[]"] c0
  have 1: "isCoordinateNearEvent config6 planar (world_with (Polygon [square]) None None) (pointer 1 1) ''f'' = Inr 0"
    by simp
  from hit_test_returns_first_closest [OF fp, where p = "(0, 0)" and cs = square and col = planar and e = "pointer 9 1" and cfg = config6 and j = 3 and rings = "[]"] c3
  have 2: "isCoordinateNearEvent config6 planar (world_with (Polygon [square]) None None) (pointer 9 1) ''f'' = Inr 3"
    by (simp add: square_def)
  from hit_test_returns_first_closest [OF fp, where p = "(0, 0)" and cs = square and col = planar and e = "pointer 5 5" and cfg = config6 and j = 0 and rings = "[]"] no
  have 3: "isCoordinateNearEvent config6 planar (world_with (Polygon [square]) None None) (pointer 5 5) ''f'' = Inr (- 1)"
    by simp
  from hit_test_returns_first_closest [OF fl, where p = "(0, 0)" and cs = square and col = planar and e = "pointer 1 1" and cfg = config6 and j = 0 and rings = "[]"] c0
  have 4: "isCoordinateNearEvent config6 planar (world_with (LineString square) None None) (pointer 1 1) ''f'' = Inr 0"
    by simp
  from hit_test_returns_first_closest [OF fq, where p = "(1, 1)" and cs = square and col = planar and e = "pointer 1 1" and cfg = config6 and j = 0 and rings = "[]"]
  have 5: "isCoordinateNearEvent config6 planar (world_with (Point (1, 1)) None None) (pointer 1 1) ''f'' = Inr (- 1)"
    by simp
  from 1 2 3 4 5 show ?thesis by simp
qed

section \<open>Coordinate-Drag: the drag\<close>

text \<open>
  C4. For an index \<open>i\<close> of an existing coordinate, \<open>drag\<close> on a LineString writes the pointer
  position at \<open>i\<close> and nothing else; on a Polygon it writes the pointer position at \<open>i\<close>, or at
  both the first and the last index of ring 0 when \<open>i\<close> is one of them, and nothing else. It
  updates the store with this one feature (one Change Record) and returns \<open>true\<close>. On a
  Point it returns \<open>false\<close> and changes nothing.
\<close>

theorem coordinate_drag_relocates:
  assumes "features (store w) fid = Some g"
  shows "(g = LineString cs \<and> 0 \<le> i \<and> i < int (length cs) \<longrightarrow>
            drag_coordinate w e fid i =
              Returned (Bool True)
                ((disableDraggability e w)
                   \<lparr>store := (store w)
                      \<lparr>features := (features (store w))(fid := Some (LineString (cs[nat i := (lng e, lat e)]))),
                       emitted := emitted (store w) @ [[fid]]\<rparr>\<rparr>))
       \<and> (g = Polygon (cs # rings) \<and> 0 \<le> i \<and> i < int (length cs) \<longrightarrow>
            drag_coordinate w e fid i =
              Returned (Bool True)
                ((disableDraggability e w)
                   \<lparr>store := (store w)
                      \<lparr>features := (features (store w))
                         (fid := Some (Polygon
                            ((if i = 0 \<or> i = int (length cs) - 1
                              then cs[0 := (lng e, lat e), length cs - 1 := (lng e, lat e)]
                              else cs[nat i := (lng e, lat e)]) # rings))),
                       emitted := emitted (store w) @ [[fid]]\<rparr>\<rparr>))
       \<and> (g = Point p \<longrightarrow> drag_coordinate w e fid i = Returned (Bool False) w)"
  using assms
  by (auto simp: drag_coordinate_def getGeometryCopy_def relocate_def assign_def commit_def
      updateGeometry_def nat_diff_distrib')


text \<open>
  C4, runs: the scenario of the spec (\<open>drag(event, id, 0)\<close> with the pointer at \<open>(5, 5)\<close> on
  the square), the last index of a LineString, and a Point.
\<close>

theorem coordinate_drag_relocates_witness:
  "result_of (drag_coordinate (world_with (Polygon [square]) None None) (pointer 5 5) ''f'' 0) = Some (Bool True)
   \<and> features (store (world_of (drag_coordinate (world_with (Polygon [square]) None None) (pointer 5 5) ''f'' 0))) ''f''
       = Some (Polygon [[(5, 5), (0, 10), (10, 10), (10, 0), (5, 5)]])
   \<and> features (store (world_of (drag_coordinate (world_with (LineString square) None None) (pointer 5 5) ''f'' 4))) ''f''
       = Some (LineString [(0, 0), (0, 10), (10, 10), (10, 0), (5, 5)])
   \<and> drag_coordinate (world_with (Point (1, 1)) None None) (pointer 5 5) ''f'' 0
       = Returned (Bool False) (world_with (Point (1, 1)) None None)"
proof -
  have fp: "features (store (world_with (Polygon [square]) None None)) ''f'' = Some (Polygon [square])"
    and fl: "features (store (world_with (LineString square) None None)) ''f'' = Some (LineString square)"
    and fq: "features (store (world_with (Point (1, 1)) None None)) ''f'' = Some (Point (1, 1))"
    by (simp_all add: world_with_def)
  have n: "int (length square) = 5" by (simp add: square_def)
  from coordinate_drag_relocates [OF fp, where cs = square and rings = "[]" and i = 0 and e = "pointer 5 5"] n
  have 1: "result_of (drag_coordinate (world_with (Polygon [square]) None None) (pointer 5 5) ''f'' 0) = Some (Bool True)
     \<and> features (store (world_of (drag_coordinate (world_with (Polygon [square]) None None) (pointer 5 5) ''f'' 0))) ''f''
       = Some (Polygon [[(5, 5), (0, 10), (10, 10), (10, 0), (5, 5)]])"
    by (simp add: square_def pointer_def)
  from coordinate_drag_relocates [OF fl, where cs = square and i = 4 and e = "pointer 5 5"] n
  have 2: "features (store (world_of (drag_coordinate (world_with (LineString square) None None) (pointer 5 5) ''f'' 4))) ''f''
       = Some (LineString [(0, 0), (0, 10), (10, 10), (10, 0), (5, 5)])"
    by (simp add: square_def pointer_def)
  from coordinate_drag_relocates [OF fq, where p = "(1, 1)" and i = 0 and e = "pointer 5 5"]
  have 3: "drag_coordinate (world_with (Point (1, 1)) None None) (pointer 5 5) ''f'' 0
       = Returned (Bool False) (world_with (Point (1, 1)) None None)"
    by simp
  from 1 2 3 show ?thesis by simp
qed

section \<open>Ring closure\<close>




lemma put_first: "fid \<notin> fst ` set hs \<Longrightarrow> put m ((fid, g) # hs) fid = Some g"
  by (simp add: put_other)

lemma handles_apartD:
  "handles_apart col fid \<Longrightarrow>
     fid \<notin> fst ` set (or_empty (selectionPointsGetUpdated col cs) @ or_empty (midPointsGetUpdated col cs))"
  by (auto simp: handles_apart_def)

lemma commit_feature:
  assumes "handles_apart col fid"
    and "\<And>w'. store (world_of (after w')) = store w'"
    and "store (world_of (commit w (updates col fid g cs) after)) \<noteq> store w"
  shows "features (store (world_of (commit w (updates col fid g cs) after))) fid = Some g"
proof (cases "updateGeometry (store w) (updates col fid g cs)")
  case (Inl err)
  with assms(3) show ?thesis by (simp add: commit_def)
next
  case (Inr st)
  then have "features st fid = put (features (store w)) (updates col fid g cs) fid"
    by (auto simp: updateGeometry_def split: if_splits)
  also have "\<dots> = Some g"
    unfolding updates_def using handles_apartD [OF assms(1)] by (rule put_first)
  finally show ?thesis using Inr assms(2) by (simp add: commit_def)
qed









lemma scale_endings:
  assumes "features (store w) fid = Some g"
    and "store (world_of (scale cfg col w e fid)) \<noteq> store w"
  shows "(haversineDistanceKilometers col (centroid col g) (lng e, lat e) \<noteq> 0
          \<and> (\<exists>factor. scale cfg col w e fid
                = scaled cfg col (disableDraggability e w) fid
                    (haversineDistanceKilometers col (centroid col g) (lng e, lat e))
                    (transformScale col g factor)))
       \<or> (haversineDistanceKilometers col (centroid col g) (lng e, lat e) = 0
          \<and> (\<exists>factor. scale cfg col w e fid
                = scaledNonFinite cfg col (disableDraggability e w) fid
                    (haversineDistanceKilometers col (centroid col g) (lng e, lat e))
                    (transformScaleNonFinite col g factor)))"
proof (cases "haversineDistanceKilometers col (centroid col g) (lng e, lat e) = 0")
  case True
  with assms show ?thesis
    by (auto simp: scale_def rescale_def getGeometryCopy_def Let_def scaleFactor_def js_divide_def
        split: option.splits if_splits geometry.splits)
next
  case False
  with assms show ?thesis
    by (auto simp: scale_def rescale_def getGeometryCopy_def Let_def scaleFactor_def js_divide_def
        split: option.splits if_splits geometry.splits)
qed

lemma scaledNonFinite_line:
  assumes "store (world_of (scaledNonFinite cfg col w fid d (JSLineString cs))) \<noteq> store w"
  shows "\<exists>hs. committedNonFinite (scaledNonFinite cfg col w fid d (JSLineString cs))
           = (fid, JSLineString (limitCoordsNonFinite (coordinatePrecision cfg) cs)) # hs"
  using assms
  by (auto simp: scaledNonFinite_def commitNonFinite_def updatesNonFinite_def split: sum.splits)

lemma scaledNonFinite_ring:
  assumes "store (world_of (scaledNonFinite cfg col w fid d (JSPolygon (ring # rings)))) \<noteq> store w"
  shows "\<exists>hs. committedNonFinite (scaledNonFinite cfg col w fid d (JSPolygon (ring # rings)))
           = (fid, JSPolygon (limitCoordsNonFinite (coordinatePrecision cfg) ring # rings)) # hs"
  using assms
  by (auto simp: scaledNonFinite_def commitNonFinite_def updatesNonFinite_def split: sum.splits)




text \<open>Facts about the concrete collaborators.\<close>

lemma handles_apart_planar: "handles_apart planar ''f''"
  by (auto simp: handles_apart_def planar_def split: list.splits)

lemma emitted_differs: "emitted st' \<noteq> emitted st \<Longrightarrow> st' \<noteq> st"
  by auto


section \<open>Coordinate precision\<close>

lemma decimal_limitPrecision: "decimal p (limitPrecision x p)"
  by (auto simp: decimal_def limitPrecision_def)

lemma limitPrecision_decimal: "decimal p x \<Longrightarrow> limitPrecision x p = x"
  by (auto simp: decimal_def limitPrecision_def)

lemma decimals_limitCoords: "decimals p (limitCoords p cs)"
  by (simp add: decimals_def limitCoords_def list_all_iff decimal_limitPrecision)

lemma shiftCheckedLimited_decimals:
  "shiftCheckedLimited p a m cs = Some cs' \<Longrightarrow> decimals p cs' \<and> length cs' = length cs"
  by (induction cs arbitrary: cs')
    (auto simp: decimals_def decimal_limitPrecision split: if_splits option.splits)

lemma drop_butlast_ring:
  assumes "ring \<noteq> []"
  shows "drop (nat (int (length ring) - 1)) ring = [last ring]"
proof -
  have "drop (length (butlast ring)) (butlast ring @ [last ring]) = [last ring]" by simp
  with assms show ?thesis by (simp add: nat_diff_distrib')
qed

lemma closeRing_moved:
  assumes "moved \<noteq> []"
  shows "closeRing (moved @ [y]) = Some (moved @ [hd moved])"
  using assms by (cases moved) (auto simp: closeRing_def list_update_append)

lemma decimals_append: "decimals p (xs @ ys) \<longleftrightarrow> decimals p xs \<and> decimals p ys"
  by (simp add: decimals_def)

lemma decimals_update:
  "decimals p cs \<Longrightarrow> decimal p (fst v) \<Longrightarrow> decimal p (snd v) \<Longrightarrow> decimals p (cs[k := v])"
  unfolding decimals_def list_all_iff using set_update_subset_insert [of cs k v] by auto


lemma finish_part_002_line:
  assumes "handles_apart col fid"
    and "store (world_of (finish_part_002 col w e fid False cs LineString)) \<noteq> store w"
  shows "features (store (world_of (finish_part_002 col w e fid False cs LineString))) fid = Some (LineString cs)"
proof -
  have eq: "finish_part_002 col w e fid False cs LineString
      = commit w (updates col fid (LineString cs) cs)
          (\<lambda>w'. Returned Undefined (w'\<lparr>dragPosition := Some (lng e, lat e)\<rparr>))"
    by (simp add: finish_part_002_def closeIfPolygon_def)
  have "features (store (world_of (commit w (updates col fid (LineString cs) cs)
          (\<lambda>w'. Returned Undefined (w'\<lparr>dragPosition := Some (lng e, lat e)\<rparr>))))) fid
        = Some (LineString cs)"
    by (rule commit_feature [OF assms(1)]) (use assms(2) eq in simp_all)
  with eq show ?thesis by simp
qed

lemma finish_part_002_ring:
  assumes "handles_apart col fid" and "closeRing cs = Some cs'"
    and "store (world_of (finish_part_002 col w e fid True cs (\<lambda>r. Polygon (r # rings)))) \<noteq> store w"
  shows "features (store (world_of (finish_part_002 col w e fid True cs (\<lambda>r. Polygon (r # rings))))) fid
           = Some (Polygon (cs' # rings))"
proof -
  from assms(2) have eq: "finish_part_002 col w e fid True cs (\<lambda>r. Polygon (r # rings))
      = commit w (updates col fid (Polygon (cs' # rings)) cs')
          (\<lambda>w'. Returned Undefined (w'\<lparr>dragPosition := Some (lng e, lat e)\<rparr>))"
    by (simp add: finish_part_002_def closeIfPolygon_def)
  have "features (store (world_of (commit w (updates col fid (Polygon (cs' # rings)) cs')
          (\<lambda>w'. Returned Undefined (w'\<lparr>dragPosition := Some (lng e, lat e)\<rparr>))))) fid
        = Some (Polygon (cs' # rings))"
    by (rule commit_feature [OF assms(1)]) (use assms(3) eq in simp_all)
  with eq show ?thesis by simp
qed

lemma drag_second_line_limited:
  assumes "handles_apart col fid" and "features (store w) fid = Some (LineString cs)"
    and "draggedFeatureId w = Some fid"
    and "store (world_of (drag_part_002_second cfg col w e)) \<noteq> store w"
  shows "\<exists>cs'. features (store (world_of (drag_part_002_second cfg col w e))) fid = Some (LineString cs')
           \<and> decimals (coordinatePrecision cfg) cs'"
proof -
  from assms(2-4) obtain anchor moved where
    m: "shiftCheckedLimited (coordinatePrecision cfg) anchor (lng e, lat e) cs = Some moved"
    and eq: "drag_part_002_second cfg col w e = finish_part_002 col w e fid False moved LineString"
    by (auto simp: drag_part_002_second_def drag_part_002_def getGeometryCopy_def
        translate_part_002_second_def split: option.splits if_splits)
  from m have "decimals (coordinatePrecision cfg) moved" by (simp add: shiftCheckedLimited_decimals)
  moreover from finish_part_002_line [OF assms(1), of w e moved] assms(4) eq
  have "features (store (world_of (drag_part_002_second cfg col w e))) fid = Some (LineString moved)"
    by simp
  ultimately show ?thesis by blast
qed

lemma drag_second_ring_limited:
  assumes "handles_apart col fid" and "features (store w) fid = Some (Polygon (ring # rings))"
    and "1 < length ring" and "draggedFeatureId w = Some fid"
    and "store (world_of (drag_part_002_second cfg col w e)) \<noteq> store w"
  shows "\<exists>ring'. features (store (world_of (drag_part_002_second cfg col w e))) fid = Some (Polygon (ring' # rings))
           \<and> decimals (coordinatePrecision cfg) ring'"
proof -
  from assms(3) have ne: "ring \<noteq> []" by auto
  from assms(2,4,5) obtain anchor moved where
    m: "shiftCheckedLimited (coordinatePrecision cfg) anchor (lng e, lat e) (butlast ring) = Some moved"
    and eq: "drag_part_002_second cfg col w e
         = finish_part_002 col w e fid True (moved @ [last ring]) (\<lambda>r. Polygon (r # rings))"
    by (auto simp: drag_part_002_second_def drag_part_002_def getGeometryCopy_def
        translate_part_002_second_def take_butlast_ring drop_butlast_ring [OF ne]
        split: option.splits if_splits)
  from m have d: "decimals (coordinatePrecision cfg) moved" and l: "length moved = length (butlast ring)"
    by (simp_all add: shiftCheckedLimited_decimals)
  from l assms(3) have mne: "moved \<noteq> []" by auto
  then have c: "closeRing (moved @ [last ring]) = Some (moved @ [hd moved])" by (rule closeRing_moved)
  from mne d have "decimals (coordinatePrecision cfg) [hd moved]"
    by (cases moved) (simp_all add: decimals_def)
  with d have "decimals (coordinatePrecision cfg) (moved @ [hd moved])" by (simp add: decimals_append)
  moreover from finish_part_002_ring [OF assms(1) c, of w e rings] assms(5) eq
  have "features (store (world_of (drag_part_002_second cfg col w e))) fid
          = Some (Polygon ((moved @ [hd moved]) # rings))"
    by simp
  ultimately show ?thesis by blast
qed


lemma scale_limited:
  assumes "handles_apart col fid" and "features (store w) fid = Some g"
    and "haversineDistanceKilometers col (centroid col g) (lng e, lat e) \<noteq> 0"
    and "store (world_of (scale cfg col w e fid)) \<noteq> store w"
  shows "(\<exists>cs'. features (store (world_of (scale cfg col w e fid))) fid = Some (LineString cs')
            \<and> decimals (coordinatePrecision cfg) cs')
       \<or> (\<exists>ring' rings'. features (store (world_of (scale cfg col w e fid))) fid = Some (Polygon (ring' # rings'))
            \<and> decimals (coordinatePrecision cfg) ring')"
proof -
  let ?w = "disableDraggability e w"
  let ?d = "haversineDistanceKilometers col (centroid col g) (lng e, lat e)"
  from scale_endings [OF assms(2,4)] assms(3) obtain factor where
    eq: "scale cfg col w e fid = scaled cfg col ?w fid ?d (transformScale col g factor)"
    by blast
  show ?thesis
  proof (cases "transformScale col g factor")
    case (Point p)
    with eq assms(4) show ?thesis by (simp add: scaled_def)
  next
    case (LineString cs)
    let ?cs' = "limitCoords (coordinatePrecision cfg) cs"
    from LineString have eq': "scaled cfg col ?w fid ?d (transformScale col g factor)
        = commit ?w (updates col fid (LineString ?cs') ?cs')
            (\<lambda>w'. Returned Undefined (w'\<lparr>lastDistance := Some ?d\<rparr>))"
      by (simp add: scaled_def)
    have "features (store (world_of (commit ?w (updates col fid (LineString ?cs') ?cs')
            (\<lambda>w'. Returned Undefined (w'\<lparr>lastDistance := Some ?d\<rparr>))))) fid = Some (LineString ?cs')"
      by (rule commit_feature [OF assms(1)]) (use assms(4) eq eq' in simp_all)
    with eq eq' decimals_limitCoords [of "coordinatePrecision cfg" cs] show ?thesis by auto
  next
    case (Polygon rings)
    show ?thesis
    proof (cases rings)
      case Nil
      with Polygon eq assms(4) show ?thesis by (simp add: scaled_def)
    next
      case (Cons ring rest)
      let ?ring' = "limitCoords (coordinatePrecision cfg) ring"
      from Polygon Cons have eq': "scaled cfg col ?w fid ?d (transformScale col g factor)
          = commit ?w (updates col fid (Polygon (?ring' # rest)) ?ring')
              (\<lambda>w'. Returned Undefined (w'\<lparr>lastDistance := Some ?d\<rparr>))"
        by (simp add: scaled_def)
      have "features (store (world_of (commit ?w (updates col fid (Polygon (?ring' # rest)) ?ring')
              (\<lambda>w'. Returned Undefined (w'\<lparr>lastDistance := Some ?d\<rparr>))))) fid = Some (Polygon (?ring' # rest))"
        by (rule commit_feature [OF assms(1)]) (use assms(4) eq eq' in simp_all)
      with eq eq' decimals_limitCoords [of "coordinatePrecision cfg" ring] show ?thesis by auto
    qed
  qed
qed

lemma decimalNonFinite_limitPrecisionNonFinite: "decimalNonFinite p (limitPrecisionNonFinite x p)"
  by (cases x) (simp_all add: decimal_limitPrecision)

lemma decimalsNonFinite_limitCoordsNonFinite: "decimalsNonFinite p (limitCoordsNonFinite p cs)"
  by (simp add: decimalsNonFinite_def limitCoordsNonFinite_def list_all_iff
      decimalNonFinite_limitPrecisionNonFinite)

lemma scale_limited_nonfinite:
  assumes "features (store w) fid = Some g"
    and "haversineDistanceKilometers col (centroid col g) (lng e, lat e) = 0"
    and "store (world_of (scale cfg col w e fid)) \<noteq> store w"
  shows "(\<exists>cs' handles. committedNonFinite (scale cfg col w e fid) = (fid, JSLineString cs') # handles
            \<and> decimalsNonFinite (coordinatePrecision cfg) cs')
       \<or> (\<exists>ring' rings' handles.
              committedNonFinite (scale cfg col w e fid) = (fid, JSPolygon (ring' # rings')) # handles
            \<and> decimalsNonFinite (coordinatePrecision cfg) ring')"
proof -
  let ?w = "disableDraggability e w"
  let ?d = "haversineDistanceKilometers col (centroid col g) (lng e, lat e)"
  from scale_endings [OF assms(1,3)] assms(2) obtain factor where
    eq: "scale cfg col w e fid = scaledNonFinite cfg col ?w fid ?d (transformScaleNonFinite col g factor)"
    by blast
  show ?thesis
  proof (cases "transformScaleNonFinite col g factor")
    case (JSPoint p)
    with eq assms(3) show ?thesis by (simp add: scaledNonFinite_def)
  next
    case (JSLineString cs)
    with eq assms(3)
    have "store (world_of (scaledNonFinite cfg col ?w fid ?d (JSLineString cs))) \<noteq> store ?w" by simp
    from scaledNonFinite_line [OF this] eq JSLineString
      decimalsNonFinite_limitCoordsNonFinite [of "coordinatePrecision cfg" cs]
    show ?thesis by auto
  next
    case (JSPolygon rings)
    show ?thesis
    proof (cases rings)
      case Nil
      with JSPolygon eq assms(3) show ?thesis by (simp add: scaledNonFinite_def)
    next
      case (Cons ring rest)
      with JSPolygon eq assms(3)
      have "store (world_of (scaledNonFinite cfg col ?w fid ?d (JSPolygon (ring # rest)))) \<noteq> store ?w" by simp
      from scaledNonFinite_ring [OF this] eq JSPolygon Cons
        decimalsNonFinite_limitCoordsNonFinite [of "coordinatePrecision cfg" ring]
      show ?thesis by auto
    qed
  qed
qed

lemma drag_coordinate_keeps_decimals:
  assumes "features (store w) fid = Some g" and "0 \<le> i" and "i < int (length cs)"
    and "decimal p (lng e)" and "decimal p (lat e)" and "decimals p cs"
  shows "(g = LineString cs \<longrightarrow>
           (\<exists>cs'. features (store (world_of (drag_coordinate w e fid i))) fid = Some (LineString cs')
              \<and> decimals p cs'))
       \<and> (g = Polygon (cs # rings) \<longrightarrow>
           (\<exists>cs'. features (store (world_of (drag_coordinate w e fid i))) fid = Some (Polygon (cs' # rings))
              \<and> decimals p cs'))"
  using assms
  by (auto simp: drag_coordinate_def getGeometryCopy_def relocate_def assign_def commit_def
      updateGeometry_def nat_diff_distrib' decimals_update)

text \<open>
  C2, as the code has it. With \<open>p\<close> the configured precision and a feature stored under \<open>fid\<close>:
  when the second variant of part\_002 (the one that calls \<open>limitPrecision\<close>) writes the store,
  every coordinate of the LineString it commits, and every coordinate of ring 0 of the Polygon
  it commits (a ring of two or more coordinates), has at most \<open>p\<close> decimal places; when
  \<open>scale\<close> writes the store on a tick whose distance from the centroid to the pointer is not
  zero, every coordinate of the LineString or of ring 0 of the Polygon it commits has at most
  \<open>p\<close> decimal places; when it writes the store on a tick whose distance is zero, the
  coordinates it commits come from a factor that is not a finite number, and every value of
  the LineString or of ring 0 of the Polygon at the head of the committed updates is either a
  finite number with at most \<open>p\<close> decimal places or not a finite number at all.
  Coordinate-Drag never calls \<open>limitPrecision\<close>:
  it commits the pointer position as given, so the coordinates it commits have at most \<open>p\<close>
  decimal places when the pointer position and the stored coordinates have.
\<close>

theorem computed_coordinates_are_limited:
  assumes "features (store w) fid = Some g"
  shows "(handles_apart col fid \<and> draggedFeatureId w = Some fid \<and> g = LineString cs
            \<and> store (world_of (drag_part_002_second cfg col w e)) \<noteq> store w \<longrightarrow>
            (\<exists>cs'. features (store (world_of (drag_part_002_second cfg col w e))) fid = Some (LineString cs')
               \<and> decimals (coordinatePrecision cfg) cs'))
       \<and> (handles_apart col fid \<and> draggedFeatureId w = Some fid \<and> g = Polygon (cs # rings) \<and> 1 < length cs
            \<and> store (world_of (drag_part_002_second cfg col w e)) \<noteq> store w \<longrightarrow>
            (\<exists>cs'. features (store (world_of (drag_part_002_second cfg col w e))) fid = Some (Polygon (cs' # rings))
               \<and> decimals (coordinatePrecision cfg) cs'))
       \<and> (handles_apart col fid \<and> haversineDistanceKilometers col (centroid col g) (lng e, lat e) \<noteq> 0
            \<and> store (world_of (scale cfg col w e fid)) \<noteq> store w \<longrightarrow>
            (\<exists>cs'. features (store (world_of (scale cfg col w e fid))) fid = Some (LineString cs')
               \<and> decimals (coordinatePrecision cfg) cs')
          \<or> (\<exists>cs' rings'. features (store (world_of (scale cfg col w e fid))) fid = Some (Polygon (cs' # rings'))
               \<and> decimals (coordinatePrecision cfg) cs'))
       \<and> (haversineDistanceKilometers col (centroid col g) (lng e, lat e) = 0
            \<and> store (world_of (scale cfg col w e fid)) \<noteq> store w \<longrightarrow>
            (\<exists>cs' handles. committedNonFinite (scale cfg col w e fid) = (fid, JSLineString cs') # handles
               \<and> decimalsNonFinite (coordinatePrecision cfg) cs')
          \<or> (\<exists>cs' rings' handles.
                 committedNonFinite (scale cfg col w e fid) = (fid, JSPolygon (cs' # rings')) # handles
               \<and> decimalsNonFinite (coordinatePrecision cfg) cs'))
       \<and> (0 \<le> i \<and> i < int (length cs) \<and> decimal (coordinatePrecision cfg) (lng e)
            \<and> decimal (coordinatePrecision cfg) (lat e) \<and> decimals (coordinatePrecision cfg) cs
            \<and> g = LineString cs \<longrightarrow>
            (\<exists>cs'. features (store (world_of (drag_coordinate w e fid i))) fid = Some (LineString cs')
               \<and> decimals (coordinatePrecision cfg) cs'))
       \<and> (0 \<le> i \<and> i < int (length cs) \<and> decimal (coordinatePrecision cfg) (lng e)
            \<and> decimal (coordinatePrecision cfg) (lat e) \<and> decimals (coordinatePrecision cfg) cs
            \<and> g = Polygon (cs # rings) \<longrightarrow>
            (\<exists>cs'. features (store (world_of (drag_coordinate w e fid i))) fid = Some (Polygon (cs' # rings))
               \<and> decimals (coordinatePrecision cfg) cs'))"
proof -
  have 1: "handles_apart col fid \<and> draggedFeatureId w = Some fid \<and> g = LineString cs
            \<and> store (world_of (drag_part_002_second cfg col w e)) \<noteq> store w \<longrightarrow>
            (\<exists>cs'. features (store (world_of (drag_part_002_second cfg col w e))) fid = Some (LineString cs')
               \<and> decimals (coordinatePrecision cfg) cs')"
    using assms drag_second_line_limited [of col fid w cs cfg e] by blast
  have 2: "handles_apart col fid \<and> draggedFeatureId w = Some fid \<and> g = Polygon (cs # rings) \<and> 1 < length cs
            \<and> store (world_of (drag_part_002_second cfg col w e)) \<noteq> store w \<longrightarrow>
            (\<exists>cs'. features (store (world_of (drag_part_002_second cfg col w e))) fid = Some (Polygon (cs' # rings))
               \<and> decimals (coordinatePrecision cfg) cs')"
    using assms drag_second_ring_limited [of col fid w cs rings cfg e] by blast
  have 3: "handles_apart col fid \<and> haversineDistanceKilometers col (centroid col g) (lng e, lat e) \<noteq> 0
            \<and> store (world_of (scale cfg col w e fid)) \<noteq> store w \<longrightarrow>
            (\<exists>cs'. features (store (world_of (scale cfg col w e fid))) fid = Some (LineString cs')
               \<and> decimals (coordinatePrecision cfg) cs')
          \<or> (\<exists>cs' rings'. features (store (world_of (scale cfg col w e fid))) fid = Some (Polygon (cs' # rings'))
               \<and> decimals (coordinatePrecision cfg) cs')"
    using assms scale_limited [of col fid w g e cfg] by blast
  have 4: "haversineDistanceKilometers col (centroid col g) (lng e, lat e) = 0
            \<and> store (world_of (scale cfg col w e fid)) \<noteq> store w \<longrightarrow>
            (\<exists>cs' handles. committedNonFinite (scale cfg col w e fid) = (fid, JSLineString cs') # handles
               \<and> decimalsNonFinite (coordinatePrecision cfg) cs')
          \<or> (\<exists>cs' rings' handles.
                 committedNonFinite (scale cfg col w e fid) = (fid, JSPolygon (cs' # rings')) # handles
               \<and> decimalsNonFinite (coordinatePrecision cfg) cs')"
    using scale_limited_nonfinite [OF assms, of col e cfg] by blast
  from 1 2 3 4 drag_coordinate_keeps_decimals [OF assms, of i cs "coordinatePrecision cfg" e rings]
  show ?thesis by blast
qed


text \<open>
  C2, the run of the spec's precision scenario: at precision 6 the second variant of
  part\_002 computes the longitude \<open>10 - (0 - 2.1234567) = 12.1234567\<close> for the first
  coordinate of a line, and the store then holds \<open>12.123457\<close>. Two runs of \<open>scale\<close> on a line
  with the centroid \<open>(1, 0)\<close> and the baseline 3: with the pointer at distance 6 the factor is
  \<open>3 / 2\<close>; with the pointer on the centroid the distance is 0 and the committed values are
  not finite numbers.
\<close>

theorem computed_coordinates_are_limited_witness:
  "(\<exists>cs'. features (store (world_of (drag_part_002_second config6 planar
              (world_with (LineString [(10, 0), (0, 0)]) (Some (0, 0)) None) (pointer 2.1234567 0)))) ''f''
            = Some (LineString cs')
          \<and> decimals (coordinatePrecision config6) cs')
   \<and> features (store (world_of (drag_part_002_second config6 planar
              (world_with (LineString [(10, 0), (0, 0)]) (Some (0, 0)) None) (pointer 2.1234567 0)))) ''f''
        = Some (LineString [(12.123457, 0), (2.123457, 0)])
   \<and> updatedLng (0, 0) (2.1234567, 0) (10, 0) = 12.1234567
   \<and> coordinatePrecision config6 = 6
   \<and> (\<exists>cs'. features (store (world_of (scale config6 planar
              (world_with (LineString [(0, 0), (2, 0)]) None (Some 3)) (pointer 7 0) ''f''))) ''f''
            = Some (LineString cs')
          \<and> decimals (coordinatePrecision config6) cs')
   \<and> features (store (world_of (scale config6 planar
              (world_with (LineString [(0, 0), (2, 0)]) None (Some 3)) (pointer 7 0) ''f''))) ''f''
        = Some (LineString [(- 1 / 2, 0), (5 / 2, 0)])
   \<and> (\<exists>cs' handles. committedNonFinite (scale config6 planar
              (world_with (LineString [(0, 0), (2, 0)]) None (Some 3)) (pointer 1 0) ''f'')
            = (''f'', JSLineString cs') # handles
          \<and> decimalsNonFinite (coordinatePrecision config6) cs')"
proof -
  let ?w = "world_with (LineString [(10, 0), (0, 0)]) (Some (0, 0)) None"
  let ?v = "world_with (LineString [(0, 0), (2, 0)]) None (Some 3)"
  have f: "features (store ?w) ''f'' = Some (LineString [(10, 0), (0, 0)])"
    and d: "draggedFeatureId ?w = Some ''f''"
    and g: "features (store ?v) ''f'' = Some (LineString [(0, 0), (2, 0)])"
    by (simp_all add: world_with_def)
  have r: "features (store (world_of (drag_part_002_second config6 planar ?w (pointer 2.1234567 0)))) ''f''
        = Some (LineString [(12.123457, 0), (2.123457, 0)])"
    by (simp add: run_defs drag_part_002_second_def drag_part_002_def translate_part_002_second_def
        finish_part_002_def invalid_def updatedLng_def updatedLat_def limitPrecision_def round_def)
  have c: "store (world_of (drag_part_002_second config6 planar ?w (pointer 2.1234567 0))) \<noteq> store ?w"
    by (rule emitted_differs)
      (simp add: run_defs drag_part_002_second_def drag_part_002_def translate_part_002_second_def
        finish_part_002_def invalid_def updatedLng_def updatedLat_def)
  have u: "updatedLng (0, 0) (2.1234567, 0) (10, 0) = 12.1234567" by (simp add: updatedLng_def)
  have p: "coordinatePrecision config6 = 6" by (simp add: config6_def)
  have d6: "haversineDistanceKilometers planar (centroid planar (LineString [(0, 0), (2, 0)]))
              (lng (pointer 7 0), lat (pointer 7 0)) \<noteq> 0"
    and d0: "haversineDistanceKilometers planar (centroid planar (LineString [(0, 0), (2, 0)]))
              (lng (pointer 1 0), lat (pointer 1 0)) = 0"
    by (simp_all add: planar_def pointer_def mean_def)
  have r6: "features (store (world_of (scale config6 planar ?v (pointer 7 0) ''f''))) ''f''
        = Some (LineString [(- 1 / 2, 0), (5 / 2, 0)])"
    by (simp add: run_defs scale_def rescale_def scaleFactor_def js_divide_def scaled_def transformScale_def
        limitCoords_def limitPrecision_def round_def)
  have c6: "store (world_of (scale config6 planar ?v (pointer 7 0) ''f'')) \<noteq> store ?v"
    by (rule emitted_differs)
      (simp add: run_defs scale_def rescale_def scaleFactor_def js_divide_def scaled_def transformScale_def
        limitCoords_def limitPrecision_def round_def)
  have c0: "store (world_of (scale config6 planar ?v (pointer 1 0) ''f'')) \<noteq> store ?v"
    by (rule emitted_differs)
      (simp add: run_defs scale_def rescale_def scaleFactor_def js_divide_def scaledNonFinite_def
        transformScaleNonFinite_def commitNonFinite_def updateGeometryNonFinite_def updatesNonFinite_def
        limitCoordsNonFinite_def)
  have l0: "committedNonFinite (scale config6 planar ?v (pointer 1 0) ''f'')
        = [(''f'', JSLineString [(NaN, NaN), (NaN, NaN)]), (''sp0'', JSPoint (NaN, NaN))]"
    by (simp add: run_defs scale_def rescale_def scaleFactor_def js_divide_def scaledNonFinite_def
        transformScaleNonFinite_def commitNonFinite_def updateGeometryNonFinite_def updatesNonFinite_def
        limitCoordsNonFinite_def)
  from computed_coordinates_are_limited [OF f, where col = planar and cfg = config6
      and e = "pointer 2.1234567 0" and cs = "[(10, 0), (0, 0)]"]
    handles_apart_planar d c
  have 1: "\<exists>cs'. features (store (world_of (drag_part_002_second config6 planar ?w (pointer 2.1234567 0)))) ''f''
            = Some (LineString cs')
          \<and> decimals (coordinatePrecision config6) cs'"
    by blast
  from computed_coordinates_are_limited [OF g, where col = planar and cfg = config6 and e = "pointer 7 0"]
    handles_apart_planar d6 c6 r6
  have 2: "\<exists>cs'. features (store (world_of (scale config6 planar ?v (pointer 7 0) ''f''))) ''f''
            = Some (LineString cs')
          \<and> decimals (coordinatePrecision config6) cs'"
    by simp
  from computed_coordinates_are_limited [OF g, where col = planar and cfg = config6 and e = "pointer 1 0"]
    d0 c0 l0
  have 3: "\<exists>cs' handles. committedNonFinite (scale config6 planar ?v (pointer 1 0) ''f'')
            = (''f'', JSLineString cs') # handles
          \<and> decimalsNonFinite (coordinatePrecision config6) cs'"
    by simp
  from 1 2 3 r r6 u p show ?thesis by blast
qed

text \<open>
  C2 fails as stated. Coordinate-Drag with the pointer at longitude \<open>12.1234567\<close> stores
  \<open>12.1234567\<close>, and the variant of part\_001 of Feature-Drag stores the longitude
  \<open>12.1234567\<close> it computes; at precision 6 that number is not rounded (rounding gives
  \<open>12.123457\<close>).
\<close>

theorem uncomputed_coordinates_are_not_limited:
  "features (store (world_of (drag_coordinate (world_with (LineString [(0, 0), (1, 1)]) None None)
       (pointer 12.1234567 5) ''f'' 0))) ''f''
     = Some (LineString [(12.1234567, 5), (1, 1)])
   \<and> features (store (world_of (drag_part_001 planar
       (world_with (LineString [(10, 0), (0, 0)]) (Some (0, 0)) None) (pointer 2.1234567 0) ''f''))) ''f''
     = Some (LineString [(12.1234567, 0), (2.1234567, 0)])
   \<and> limitPrecision 12.1234567 (coordinatePrecision config6) = 12.123457
   \<and> \<not> decimal (coordinatePrecision config6) 12.1234567"
proof -
  have 1: "features (store (world_of (drag_coordinate (world_with (LineString [(0, 0), (1, 1)]) None None)
       (pointer 12.1234567 5) ''f'' 0))) ''f''
     = Some (LineString [(12.1234567, 5), (1, 1)])"
    by (simp add: run_defs drag_coordinate_def relocate_def assign_def)
  have 2: "features (store (world_of (drag_part_001 planar
       (world_with (LineString [(10, 0), (0, 0)]) (Some (0, 0)) None) (pointer 2.1234567 0) ''f''))) ''f''
     = Some (LineString [(12.1234567, 0), (2.1234567, 0)])"
    by (simp add: run_defs drag_part_001_def translate_part_001_def clampDelta_def validateDeltaRange_def
        component_def with_component_def shiftBy_def)
  have 3: "limitPrecision 12.1234567 (coordinatePrecision config6) = 12.123457"
    by (simp add: config6_def limitPrecision_def round_def)
  have 4: "\<not> decimal (coordinatePrecision config6) 12.1234567"
  proof
    assume "decimal (coordinatePrecision config6) 12.1234567"
    then have "limitPrecision 12.1234567 (coordinatePrecision config6) = 12.1234567"
      by (rule limitPrecision_decimal)
    with 3 show False by simp
  qed
  from 1 2 3 4 show ?thesis by simp
qed

section \<open>Feature-Drag: what the variant of part\_001 does commit\<close>

lemma validateDeltaRange_fst: "k \<noteq> 0 \<Longrightarrow> fst (validateDeltaRange k c mn mx d) = fst d"
  by (simp add: validateDeltaRange_def with_component_def Let_def)

lemma clampDelta_fst: "fst (clampDelta cs d) = fst d"
  unfolding clampDelta_def by (induction cs arbitrary: d) (simp_all add: validateDeltaRange_fst)

lemma map_fst_shiftBy: "map fst (shiftBy delta cs) = map (\<lambda>c. fst c - fst delta) cs"
  by (simp add: shiftBy_def)

text \<open>
  With an anchor set, a LineString stored under \<open>fid\<close> and handles the store knows,
  \<open>drag\<close> of part\_001 has no rejecting path: it returns normally
  after an update that emits a Change Record. Only the latitude delta is ever rewritten, so
  every committed longitude is the stored one moved by the pointer's longitude delta, whatever
  its value.
\<close>

theorem part_001_never_rejects:
  assumes "dragPosition w = Some anchor" and "features (store w) fid = Some (LineString cs)"
    and "\<And>cs'. list_all (known (store w))
           (or_empty (selectionPointsGetUpdated col cs') @ or_empty (midPointsGetUpdated col cs'))"
    and "handles_apart col fid"
  shows "\<exists>cs'. result_of (drag_part_001 col w e fid) = Some Undefined
           \<and> features (store (world_of (drag_part_001 col w e fid))) fid = Some (LineString cs')
           \<and> emitted (store (world_of (drag_part_001 col w e fid))) \<noteq> emitted (store w)
           \<and> map fst cs' = map (\<lambda>c. fst c - (fst anchor - lng e)) cs"
proof -
  let ?w = "disableDraggability e w"
  let ?delta = "clampDelta cs (fst anchor - lng e, snd anchor - lat e)"
  let ?cs' = "shiftBy ?delta cs"
  let ?us = "updates col fid (LineString ?cs') ?cs'"
  from assms(1,2) have eq: "drag_part_001 col w e fid = commit ?w ?us (Returned Undefined)"
    by (simp add: drag_part_001_def getGeometryCopy_def translate_part_001_def closeIfPolygon_def
        disableDraggability_def Let_def)
  from assms(2,3) have k: "list_all (known (store ?w)) ?us"
    by (simp add: updates_def)
  then have c: "commit ?w ?us (Returned Undefined)
      = Returned Undefined (?w\<lparr>store := (store w)\<lparr>features := put (features (store w)) ?us,
                                                   emitted := emitted (store w) @ [map fst ?us]\<rparr>\<rparr>)"
    by (simp add: commit_def updateGeometry_def)
  have "put (features (store w)) ?us fid = Some (LineString ?cs')"
    unfolding updates_def using handles_apartD [OF assms(4)] by (rule put_first)
  moreover have "map fst ?cs' = map (\<lambda>c. fst c - (fst anchor - lng e)) cs"
    by (simp add: map_fst_shiftBy clampDelta_fst)
  ultimately show ?thesis using eq c by auto
qed

text \<open>
  A run: a line at longitudes 170 and 175 dragged east by 20 degrees is committed at
  longitudes 190 and 195.
\<close>

theorem part_001_never_rejects_witness:
  "result_of (drag_part_001 planar (world_with (LineString [(170, 0), (175, 0)]) (Some (0, 0)) None) (pointer 20 0) ''f'')
     = Some Undefined
   \<and> features (store (world_of (drag_part_001 planar (world_with (LineString [(170, 0), (175, 0)]) (Some (0, 0)) None) (pointer 20 0) ''f''))) ''f''
     = Some (LineString [(190, 0), (195, 0)])"
proof -
  let ?w = "world_with (LineString [(170, 0), (175, 0)]) (Some (0, 0)) None"
  have a: "dragPosition ?w = Some (0, 0)"
    and f: "features (store ?w) ''f'' = Some (LineString [(170, 0), (175, 0)])"
    by (simp_all add: world_with_def)
  have k: "\<And>cs'. list_all (known (store ?w))
           (or_empty (selectionPointsGetUpdated planar cs') @ or_empty (midPointsGetUpdated planar cs'))"
    by (simp add: world_with_def planar_def split: list.splits)
  from part_001_never_rejects [OF a f k handles_apart_planar, of "pointer 20 0"]
  obtain cs' where r: "result_of (drag_part_001 planar ?w (pointer 20 0) ''f'') = Some Undefined"
    and s: "features (store (world_of (drag_part_001 planar ?w (pointer 20 0) ''f''))) ''f'' = Some (LineString cs')"
    by blast
  have "features (store (world_of (drag_part_001 planar ?w (pointer 20 0) ''f''))) ''f''
     = Some (LineString [(190, 0), (195, 0)])"
    by (simp add: run_defs drag_part_001_def translate_part_001_def clampDelta_def validateDeltaRange_def
        component_def with_component_def shiftBy_def)
  with r show ?thesis by simp
qed

end
